theory Spec2Isabelle
  imports Main "HOL-Library.Sublist"
begin

section \<open>Python strings and exceptions\<close>

text \<open>
  A Python \<open>str\<close> is modelled as a \<open>string\<close>; a \<open>char\<close> stands for a code point
  below 256. A call that may raise returns \<open>error + 'a\<close>, with \<open>Inl\<close> for the
  exception that leaves the function.
\<close>

datatype error =
    ValueError            \<comment> \<open>raised by \<open>urllib.parse.urlsplit\<close>\<close>
  | AttributeError        \<comment> \<open>attribute access on \<open>None\<close>\<close>
  | Exception string      \<comment> \<open>\<open>raise Exception(msg)\<close>\<close>
  | LibraryError string   \<comment> \<open>an exception raised inside requests or usp\<close>

definition lstrip :: "string \<Rightarrow> string \<Rightarrow> string" where
  "lstrip chars s = dropWhile (\<lambda>c. c \<in> set chars) s"

definition rstrip :: "string \<Rightarrow> string \<Rightarrow> string" where
  "rstrip chars s = rev (dropWhile (\<lambda>c. c \<in> set chars) (rev s))"

definition strip :: "string \<Rightarrow> string \<Rightarrow> string" where
  "strip chars s = rstrip chars (lstrip chars s)"

text \<open>\<open>s.split(sep)\<close> for a one-character separator: \<open>''.split('/')\<close> is \<open>['']\<close>.\<close>

fun split :: "char \<Rightarrow> string \<Rightarrow> string list" where
  "split sep [] = [[]]"
| "split sep (c # cs) =
     (if c = sep then [] # split sep cs
      else (case split sep cs of w # ws \<Rightarrow> (c # w) # ws | [] \<Rightarrow> [[c]]))"

text \<open>\<open>s.split(sep, 1)\<close> when \<open>sep\<close> occurs in \<open>s\<close>: the parts before and after its first occurrence.\<close>

definition split1 :: "char \<Rightarrow> string \<Rightarrow> string \<times> string" where
  "split1 sep s = (takeWhile (\<lambda>c. c \<noteq> sep) s, drop 1 (dropWhile (\<lambda>c. c \<noteq> sep) s))"

text \<open>\<open>sep.join(xs)\<close>.\<close>

fun join :: "string \<Rightarrow> string list \<Rightarrow> string" where
  "join sep [] = []"
| "join sep [x] = x"
| "join sep (x # y # ys) = x @ sep @ join sep (y # ys)"

text \<open>\<open>sub in s\<close>: \<open>sub\<close> occurs in \<open>s\<close> as a contiguous substring.\<close>

fun contains :: "string \<Rightarrow> string \<Rightarrow> bool" where
  "contains sub [] = (sub = [])"
| "contains sub (c # cs) = (prefix sub (c # cs) \<or> contains sub cs)"

definition is_ascii_alpha :: "char \<Rightarrow> bool" where
  "is_ascii_alpha c =
     (let n = (of_char c :: nat) in (65 \<le> n \<and> n \<le> 90) \<or> (97 \<le> n \<and> n \<le> 122))"

text \<open>\<open>s.lower()\<close> on a string of scheme characters: only \<open>A\<close>..\<open>Z\<close> change.\<close>

definition lower :: "string \<Rightarrow> string" where
  "lower s = map (\<lambda>c. let n = (of_char c :: nat) in
                       if 65 \<le> n \<and> n \<le> 90 then char_of (n + 32) else c) s"

section \<open>\<open>urllib.parse\<close>\<close>

text \<open>
  \<open>urlsplit\<close>, \<open>urlparse\<close>, \<open>urlunparse\<close> and \<open>urljoin\<close> as CPython 3.11 has them, with
  \<open>allow_fragments\<close> at its default. \<open>urlsplit\<close> raises \<open>ValueError\<close> when the authority
  part fails the library's validation (unbalanced or ill-formed bracketed host, characters
  that NFKC normalisation turns into delimiters); that validation is the parameter
  \<open>valid\<close>, consulted only when the URL has an authority part.
\<close>

definition uses_relative :: "string list" where
  "uses_relative = ['''', ''ftp'', ''http'', ''gopher'', ''nntp'', ''imap'',
     ''wais'', ''file'', ''https'', ''shttp'', ''mms'',
     ''prospero'', ''rtsp'', ''rtsps'', ''rtspu'', ''sftp'',
     ''svn'', ''svn+ssh'', ''ws'', ''wss'']"

definition uses_netloc :: "string list" where
  "uses_netloc = ['''', ''ftp'', ''http'', ''gopher'', ''nntp'', ''telnet'',
     ''imap'', ''wais'', ''file'', ''mms'', ''https'', ''shttp'',
     ''snews'', ''prospero'', ''rtsp'', ''rtsps'', ''rtspu'', ''rsync'',
     ''svn'', ''svn+ssh'', ''sftp'', ''nfs'', ''git'', ''git+ssh'',
     ''ws'', ''wss'']"

definition uses_params :: "string list" where
  "uses_params = ['''', ''ftp'', ''hdl'', ''prospero'', ''http'', ''imap'',
     ''https'', ''shttp'', ''rtsp'', ''rtsps'', ''rtspu'', ''sip'',
     ''sips'', ''mms'', ''sftp'', ''tel'']"

definition scheme_chars :: "string" where
  "scheme_chars =
     ''abcdefghijklmnopqrstuvwxyzABCDEFGHIJKLMNOPQRSTUVWXYZ0123456789+-.''"

text \<open>The code points 0 to 32: C0 controls and space.\<close>

definition WHATWG_C0_CONTROL_OR_SPACE :: "string" where
  "WHATWG_C0_CONTROL_OR_SPACE = map char_of [0 ..< (33::nat)]"

definition UNSAFE_URL_BYTES_TO_REMOVE :: "string" where
  "UNSAFE_URL_BYTES_TO_REMOVE = [CHR 0x09, CHR 0x0D, CHR 0x0A]"

text \<open>
  \<open>_splitnetloc(url, 2)\<close>: the authority runs from index 2 to the first of \<open>/\<close>, \<open>?\<close>,
  \<open>#\<close>, or to the end.
\<close>

definition splitnetloc :: "string \<Rightarrow> string \<times> string" where
  "splitnetloc u =
     (takeWhile (\<lambda>c. c \<notin> set ''/?#'') (drop 2 u),
      dropWhile (\<lambda>c. c \<notin> set ''/?#'') (drop 2 u))"

text \<open>The scheme and the rest of the URL, when the text before the first colon is a scheme.\<close>

definition split_scheme :: "string \<Rightarrow> string \<Rightarrow> string \<times> string" where
  "split_scheme u default_scheme =
     (let i = length (takeWhile (\<lambda>c. c \<noteq> CHR '':'') u) in
      if CHR '':'' \<in> set u \<and> i > 0 \<and> is_ascii_alpha (hd u)
         \<and> list_all (\<lambda>c. c \<in> set scheme_chars) (take i u)
      then (lower (take i u), drop (i + 1) u)
      else (default_scheme, u))"

text \<open>The result of \<open>urlsplit\<close>: scheme, netloc, path, query, fragment.\<close>

definition urlsplit ::
  "(string \<Rightarrow> bool) \<Rightarrow> string \<Rightarrow> string
     \<Rightarrow> error + (string \<times> string \<times> string \<times> string \<times> string)" where
  "urlsplit valid u0 scheme0 =
     (let u1 = filter (\<lambda>c. c \<notin> set UNSAFE_URL_BYTES_TO_REMOVE)
                 (lstrip WHATWG_C0_CONTROL_OR_SPACE u0);
          scheme1 = filter (\<lambda>c. c \<notin> set UNSAFE_URL_BYTES_TO_REMOVE)
                      (strip WHATWG_C0_CONTROL_OR_SPACE scheme0);
          (scheme, u2) = split_scheme u1 scheme1;
          (netloc, u3) = (if take 2 u2 = ''//'' then splitnetloc u2 else ('''', u2))
      in if netloc \<noteq> '''' \<and> \<not> valid netloc then Inl ValueError
         else
           let (u4, fragment) = (if CHR ''#'' \<in> set u3 then split1 (CHR ''#'') u3 else (u3, ''''));
               (u5, query) = (if CHR ''?'' \<in> set u4 then split1 (CHR ''?'') u4 else (u4, ''''))
           in Inr (scheme, netloc, u5, query, fragment))"

text \<open>
  \<open>_splitparams(url)\<close>, called when \<open>;\<close> occurs in \<open>url\<close>: the parameters of the last path
  segment.
\<close>

definition splitparams :: "string \<Rightarrow> string \<times> string" where
  "splitparams u =
     (if CHR ''/'' \<in> set u then
        (let k = length u - length (takeWhile (\<lambda>c. c \<noteq> CHR ''/'') (rev u)) - 1;
             last_seg = drop k u
         in if CHR '';'' \<in> set last_seg
            then (take k u @ takeWhile (\<lambda>c. c \<noteq> CHR '';'') last_seg,
                  drop 1 (dropWhile (\<lambda>c. c \<noteq> CHR '';'') last_seg))
            else (u, ''''))
      else split1 (CHR '';'') u)"

text \<open>The result of \<open>urlparse\<close>: scheme, netloc, path, params, query, fragment.\<close>

definition urlparse ::
  "(string \<Rightarrow> bool) \<Rightarrow> string \<Rightarrow> string
     \<Rightarrow> error + (string \<times> string \<times> string \<times> string \<times> string \<times> string)" where
  "urlparse valid u default_scheme =
     (case urlsplit valid u default_scheme of
        Inl e \<Rightarrow> Inl e
      | Inr (scheme, netloc, p, query, fragment) \<Rightarrow>
          (let (p', params) = (if scheme \<in> set uses_params \<and> CHR '';'' \<in> set p
                               then splitparams p else (p, ''''))
           in Inr (scheme, netloc, p', params, query, fragment)))"

section \<open>The URL path decomposer\<close>

text \<open>
  The loop of \<open>get_path_hierarchy\<close>: each directory is appended to the running prefix, the
  prefix is recorded, then a slash is appended.
\<close>

fun hierarchy_loop :: "string list \<Rightarrow> string \<Rightarrow> string list \<Rightarrow> string list" where
  "hierarchy_loop [] pre result = result"
| "hierarchy_loop (directory # rest) pre result =
     hierarchy_loop rest (pre @ directory @ ''/'') (result @ [pre @ directory])"

definition get_path_hierarchy :: "(string \<Rightarrow> bool) \<Rightarrow> string \<Rightarrow> error + string list" where
  "get_path_hierarchy valid u =
     (case urlparse valid u '''' of
        Inl e \<Rightarrow> Inl e
      | Inr (scheme, netloc, p, params, query, fragment) \<Rightarrow>
          if p = '''' then Inr []
          else Inr (hierarchy_loop (split (CHR ''/'') (strip ''/'' p)) '''' []))"

section \<open>\<open>urljoin\<close>\<close>

text \<open>\<open>urlunsplit\<close> and \<open>urlunparse\<close>.\<close>

definition urlunsplit :: "string \<times> string \<times> string \<times> string \<times> string \<Rightarrow> string" where
  "urlunsplit parts =
     (case parts of (scheme, netloc, u, query, fragment) \<Rightarrow>
        let u1 = (if netloc \<noteq> '''' \<or> (scheme \<noteq> '''' \<and> scheme \<in> set uses_netloc)
                     \<or> take 2 u = ''//''
                  then ''//'' @ netloc @ (if u \<noteq> '''' \<and> take 1 u \<noteq> ''/'' then ''/'' @ u else u)
                  else u);
            u2 = (if scheme \<noteq> '''' then scheme @ '':'' @ u1 else u1);
            u3 = (if query \<noteq> '''' then u2 @ ''?'' @ query else u2)
        in if fragment \<noteq> '''' then u3 @ ''#'' @ fragment else u3)"

definition urlunparse ::
  "string \<times> string \<times> string \<times> string \<times> string \<times> string \<Rightarrow> string" where
  "urlunparse parts =
     (case parts of (scheme, netloc, u, params, query, fragment) \<Rightarrow>
        urlunsplit (scheme, netloc, (if params \<noteq> '''' then u @ '';'' @ params else u),
                    query, fragment))"

text \<open>
  The loop of \<open>urljoin\<close> over the path segments; \<open>..\<close> on an empty \<open>resolved_path\<close> is
  ignored, as the caught \<open>IndexError\<close> is.
\<close>

fun resolve_segments :: "string list \<Rightarrow> string list \<Rightarrow> string list" where
  "resolve_segments [] resolved_path = resolved_path"
| "resolve_segments (seg # segs) resolved_path =
     (if seg = ''..'' then resolve_segments segs (butlast resolved_path)
      else if seg = ''.'' then resolve_segments segs resolved_path
      else resolve_segments segs (resolved_path @ [seg]))"

text \<open>\<open>segments[1:-1] = filter(None, segments[1:-1])\<close>.\<close>

definition filter_inner :: "string list \<Rightarrow> string list" where
  "filter_inner segments =
     (if length segments < 2 then segments
      else hd segments # filter (\<lambda>s. s \<noteq> '''') (butlast (tl segments)) @ [last segments])"

definition urljoin :: "(string \<Rightarrow> bool) \<Rightarrow> string \<Rightarrow> string \<Rightarrow> error + string" where
  "urljoin valid base u =
     (if base = '''' then Inr u
      else if u = '''' then Inr base
      else
        case urlparse valid base '''' of
          Inl e \<Rightarrow> Inl e
        | Inr (bscheme, bnetloc, bpath, bparams, bquery, bfragment) \<Rightarrow>
        case urlparse valid u bscheme of
          Inl e \<Rightarrow> Inl e
        | Inr (scheme, netloc, p, params, query, fragment) \<Rightarrow>
        if scheme \<noteq> bscheme \<or> scheme \<notin> set uses_relative then Inr u
        else if scheme \<in> set uses_netloc \<and> netloc \<noteq> ''''
        then Inr (urlunparse (scheme, netloc, p, params, query, fragment))
        else
          let netloc' = (if scheme \<in> set uses_netloc then bnetloc else netloc) in
          if p = '''' \<and> params = ''''
          then Inr (urlunparse (scheme, netloc', bpath, bparams,
                                (if query = '''' then bquery else query), fragment))
          else
            let base_parts0 = split (CHR ''/'') bpath;
                base_parts = (if last base_parts0 \<noteq> '''' then butlast base_parts0
                              else base_parts0);
                segments = (if take 1 p = ''/'' then split (CHR ''/'') p
                            else filter_inner (base_parts @ split (CHR ''/'') p));
                resolved0 = resolve_segments segments [];
                resolved_path = (if last segments \<in> {''.'', ''..''} then resolved0 @ ['''']
                                 else resolved0);
                joined = join ''/'' resolved_path
            in Inr (urlunparse (scheme, netloc', (if joined = '''' then ''/'' else joined),
                                params, query, fragment)))"

section \<open>The parsed document\<close>

text \<open>
  The tree that BeautifulSoup builds with \<open>html.parser\<close>: a tag has its name, the tokens of
  its \<open>class\<close> attribute and its children; a \<open>NavigableString\<close> is a text node; \<open>Comment\<close>
  stands for the string kinds that \<open>.text\<close> leaves out. Other attributes play no part in
  the queries this program makes.
\<close>

datatype node =
    Tag string "string list" "node list"
  | NavigableString string
  | Comment string

text \<open>The text nodes below a node, concatenated in document order.\<close>

fun text_of :: "node \<Rightarrow> string" where
  "text_of (Tag nm cls kids) = concat (map text_of kids)"
| "text_of (NavigableString s) = s"
| "text_of (Comment s) = ''''"

fun is_Tag :: "node \<Rightarrow> bool" where
  "is_Tag (Tag nm cls kids) = True"
| "is_Tag (NavigableString s) = False"
| "is_Tag (Comment s) = False"

text \<open>
  The tags below a node in document order, each paired with its parent: an element of the
  tree knows its \<open>.parent\<close>.
\<close>

fun descendants :: "node \<Rightarrow> (node \<times> node) list" where
  "descendants (Tag nm cls kids) =
     concat (map (\<lambda>k. (if is_Tag k then [(k, Tag nm cls kids)] else []) @ descendants k) kids)"
| "descendants (NavigableString s) = []"
| "descendants (Comment s) = []"

text \<open>
  A tag matches \<open>find(name, attrs={'class': c})\<close> when its name is \<open>name\<close> and \<open>c\<close> is one of
  its class tokens; without \<open>attrs\<close> the name alone decides.
\<close>

fun matches :: "string \<Rightarrow> string option \<Rightarrow> node \<Rightarrow> bool" where
  "matches nm cls (Tag nm' cls' kids) =
     (nm' = nm \<and> (case cls of None \<Rightarrow> True | Some c \<Rightarrow> c \<in> set cls'))"
| "matches nm cls (NavigableString s) = False"
| "matches nm cls (Comment s) = False"

text \<open>\<open>node.find(name, attrs)\<close>: the first matching tag below the node, or \<open>None\<close>.\<close>

definition soup_find :: "node \<Rightarrow> string \<Rightarrow> string option \<Rightarrow> (node \<times> node) option" where
  "soup_find root nm cls =
     (case filter (\<lambda>e. matches nm cls (fst e)) (descendants root) of
        [] \<Rightarrow> None
      | e # es \<Rightarrow> Some e)"

definition parent :: "node \<times> node \<Rightarrow> node" where
  "parent e = snd e"

text \<open>\<open>element.text\<close>, the property that calls \<open>get_text()\<close>.\<close>

definition get_text :: "node \<times> node \<Rightarrow> string" where
  "get_text e = text_of (fst e)"

text \<open>
  \<open>BeautifulSoup(markup, 'html.parser')\<close>: the tree builder either builds the nodes of the
  document or rejects the markup, and then the constructor raises
  (\<open>ParserRejectedMarkup\<close>). What the builder does with given bytes is a parameter. When
  the constructor returns, it returns the document object, never \<open>None\<close>.
\<close>

definition BeautifulSoup :: "(string \<Rightarrow> error + node list) \<Rightarrow> string \<Rightarrow> error + node option" where
  "BeautifulSoup builder markup =
     (case builder markup of
        Inl e \<Rightarrow> Inl e
      | Inr nodes \<Rightarrow> Inr (Some (Tag ''[document]'' [] nodes)))"

section \<open>The world outside the program\<close>

text \<open>
  A \<open>requests.Response\<close>: the status code and the bytes of the body. \<open>Response.ok\<close> is
  false exactly when \<open>raise_for_status()\<close> raises, that is for a status from 400 to 599.
\<close>

record Response =
  status_code :: int
  content :: string

definition ok :: "Response \<Rightarrow> bool" where
  "ok resp = (\<not> (400 \<le> status_code resp \<and> status_code resp < 600))"

text \<open>
  The sitemap objects of the \<open>usp\<close> library: an invalid sitemap (URL and reason), a sitemap
  of pages, an index of sub-sitemaps. \<open>all_pages()\<close> is empty for an invalid sitemap, the
  pages of a pages sitemap, and the pages of all sub-sitemaps of an index, in order.
\<close>

datatype SitemapPage = SitemapPage string

fun page_url_of :: "SitemapPage \<Rightarrow> string" where
  "page_url_of (SitemapPage u) = u"

datatype sitemap =
    InvalidSitemap string string
  | PagesSitemap string "SitemapPage list"
  | IndexSitemap string "sitemap list"

fun all_pages :: "sitemap \<Rightarrow> SitemapPage list" where
  "all_pages (InvalidSitemap u reason) = []"
| "all_pages (PagesSitemap u pgs) = pgs"
| "all_pages (IndexSitemap u subs) = concat (map all_pages subs)"

fun is_InvalidSitemap :: "sitemap \<Rightarrow> bool" where
  "is_InvalidSitemap (InvalidSitemap u reason) = True"
| "is_InvalidSitemap (PagesSitemap u pgs) = False"
| "is_InvalidSitemap (IndexSitemap u subs) = False"

text \<open>
  What the program asks of the outside: \<open>requests.get(url)\<close>, which returns a response or
  raises; the tree builder \<open>html.parser\<close>, which builds the nodes of a document or rejects
  the markup; \<open>SitemapFetcher(url, web_client=None, recursion_level=0).sitemap()\<close> and
  \<open>sitemap_tree_for_homepage(site)\<close>, which return a sitemap or raise; and the validation
  of an authority part inside \<open>urlsplit\<close>. The site is fixed during a run.
\<close>

record env =
  netloc_ok :: "string \<Rightarrow> bool"
  requests_get :: "string \<Rightarrow> error + Response"
  html_parser :: "string \<Rightarrow> error + node list"
  SitemapFetcher_sitemap :: "string \<Rightarrow> error + sitemap"
  sitemap_tree_for_homepage :: "string \<Rightarrow> error + sitemap"

section \<open>The crawler\<close>

record ProductData =
  title :: string
  description :: string
  subtitle :: string
  url :: string
  sections :: "string list option"

record Crawler =
  split_lines :: bool
  site :: string
  relative_urls :: bool
  pages :: "string list"

definition Crawler_init :: "string \<Rightarrow> bool \<Rightarrow> bool \<Rightarrow> Crawler" where
  "Crawler_init s rel spl =
     \<lparr>split_lines = spl, site = s, relative_urls = rel, pages = []\<rparr>"

text \<open>
  \<open>Crawler.download_sitemap\<close>. \<open>not sitemap_url\<close> holds for \<open>None\<close> and for the empty
  string.
\<close>

definition download_sitemap ::
  "env \<Rightarrow> Crawler \<Rightarrow> string option \<Rightarrow> error + SitemapPage list" where
  "download_sitemap E self sitemap_url =
     (if sitemap_url = None \<or> sitemap_url = Some '''' then
        (case sitemap_tree_for_homepage E (site self) of
           Inl e \<Rightarrow> Inl e
         | Inr tree \<Rightarrow> Inr (all_pages tree))
      else
        (case SitemapFetcher_sitemap E (the sitemap_url) of
           Inl e \<Rightarrow> Inl e
         | Inr unpublished_sitemap \<Rightarrow>
             (let sitemaps = (if \<not> is_InvalidSitemap unpublished_sitemap
                              then [] @ [unpublished_sitemap] else []);
                  index_sitemap = IndexSitemap (site self) sitemaps
              in Inr (all_pages index_sitemap))))"

text \<open>
  The body of the \<open>try\<close> block of \<open>crawl_page\<close>. An attribute read on \<open>None\<close> raises
  \<open>AttributeError\<close>; the statements run in the order of the source.
\<close>

definition try_block :: "node \<Rightarrow> string \<Rightarrow> string list \<Rightarrow> error + ProductData" where
  "try_block soup u secs =
     (let product_name = soup_find soup ''h1'' (Some ''product-name'') in
      case soup_find soup ''h2'' (Some ''product-description-header'') of
        None \<Rightarrow> Inl AttributeError
      | Some h2 \<Rightarrow>
          (let description_el = parent h2;
               subtitle_el = soup_find soup ''div'' (Some ''product-subtitle'')
           in case product_name of
                None \<Rightarrow> Inl AttributeError
              | Some pn \<Rightarrow>
                  (case soup_find description_el ''p'' None of
                     None \<Rightarrow> Inl AttributeError
                   | Some p \<Rightarrow>
                       (case subtitle_el of
                          None \<Rightarrow> Inl AttributeError
                        | Some st \<Rightarrow>
                            Inr \<lparr>title = get_text pn, description = get_text p,
                                 subtitle = get_text st, url = u,
                                 sections = Some secs\<rparr>))))"

text \<open>
  \<open>Crawler.crawl_page\<close>. The result is \<open>Inl e\<close> when the exception \<open>e\<close> leaves the method,
  \<open>Inr None\<close> when it returns \<open>None\<close>, \<open>Inr (Some product)\<close> when it returns a record.
  \<open>get_path_hierarchy\<close>, \<open>requests.get\<close> and the \<open>BeautifulSoup\<close> constructor run outside
  the \<open>try\<close> block, so what they raise leaves the method; the bare \<open>except\<close> catches
  whatever the block raises, prints a line and falls through to \<open>return\<close>. The printed
  line is not modelled.
\<close>

definition crawl_page :: "env \<Rightarrow> Crawler \<Rightarrow> string \<Rightarrow> string \<Rightarrow> error + ProductData option" where
  "crawl_page E self u content_selector =
     (case get_path_hierarchy (netloc_ok E) u of
        Inl e \<Rightarrow> Inl e
      | Inr secs \<Rightarrow>
          (case requests_get E u of
             Inl e \<Rightarrow> Inl e
           | Inr resp \<Rightarrow>
               if \<not> ok resp then Inr None
               else
                 (case BeautifulSoup (html_parser E) (content resp) of
                    Inl e \<Rightarrow> Inl e
                  | Inr None \<Rightarrow> Inl (Exception ''null soup exception'')
                  | Inr (Some soup) \<Rightarrow>
                      (case try_block soup u secs of
                         Inr product \<Rightarrow> Inr (Some product)
                       | Inl e \<Rightarrow> Inr None))))"

section \<open>\<open>json.dumps\<close>\<close>

text \<open>
  The Python values that reach \<open>json.dumps\<close> here: \<open>None\<close>, strings, lists, and
  dictionaries with string keys in insertion order.
\<close>

datatype pyvalue =
    PyNone
  | PyStr string
  | PyList "pyvalue list"
  | PyDict "(string \<times> pyvalue) list"

definition hexdigit :: "nat \<Rightarrow> char" where
  "hexdigit d = ''0123456789abcdef'' ! d"

text \<open>
  \<open>encode_basestring_ascii\<close>: backslash, double quote and every character outside the
  range from space to tilde are replaced, by the short escape where \<open>ESCAPE_DCT\<close> has one
  and by \<open>\uXXXX\<close> with four lower-case hex digits otherwise.
\<close>

definition escape_char :: "char \<Rightarrow> string" where
  "escape_char c =
     (if c = CHR 0x5C then [CHR 0x5C, CHR 0x5C]
      else if c = CHR 0x22 then [CHR 0x5C, CHR 0x22]
      else if c = CHR 0x08 then [CHR 0x5C, CHR ''b'']
      else if c = CHR 0x0C then [CHR 0x5C, CHR ''f'']
      else if c = CHR 0x0A then [CHR 0x5C, CHR ''n'']
      else if c = CHR 0x0D then [CHR 0x5C, CHR ''r'']
      else if c = CHR 0x09 then [CHR 0x5C, CHR ''t'']
      else
        (let n = (of_char c :: nat) in
         if 32 \<le> n \<and> n \<le> 126 then [c]
         else [CHR 0x5C, CHR ''u''] @
              map hexdigit [n div 4096 mod 16, n div 256 mod 16, n div 16 mod 16, n mod 16]))"

definition encode_basestring_ascii :: "string \<Rightarrow> string" where
  "encode_basestring_ascii s = [CHR 0x22] @ concat (map escape_char s) @ [CHR 0x22]"

text \<open>\<open>json.dumps(value)\<close> with the default separators \<open>', '\<close> and \<open>': '\<close>.\<close>

fun dumps :: "pyvalue \<Rightarrow> string" where
  "dumps PyNone = ''null''"
| "dumps (PyStr s) = encode_basestring_ascii s"
| "dumps (PyList xs) = ''['' @ join '', '' (map dumps xs) @ '']''"
| "dumps (PyDict items) =
     ''{'' @ join '', '' (map (\<lambda>(k, v). encode_basestring_ascii k @ '': '' @ dumps v) items)
       @ ''}''"

text \<open>\<open>product.__dict__\<close> of a \<open>ProductData\<close>: its fields in declaration order.\<close>

definition dict_of :: "ProductData \<Rightarrow> pyvalue" where
  "dict_of product =
     PyDict [(''title'', PyStr (title product)),
             (''description'', PyStr (description product)),
             (''subtitle'', PyStr (subtitle product)),
             (''url'', PyStr (url product)),
             (''sections'', (case sections product of
                               None \<Rightarrow> PyNone
                             | Some secs \<Rightarrow> PyList (map PyStr secs)))]"

section \<open>The orchestrator\<close>

text \<open>The loop that joins every page URL of the sitemap with the site URL.\<close>

fun join_pages ::
  "(string \<Rightarrow> bool) \<Rightarrow> string \<Rightarrow> SitemapPage list \<Rightarrow> string list \<Rightarrow> error + string list" where
  "join_pages valid base [] page_urls = Inr page_urls"
| "join_pages valid base (page # rest) page_urls =
     (case urljoin valid base (page_url_of page) of
        Inl e \<Rightarrow> Inl e
      | Inr full_page_url \<Rightarrow> join_pages valid base rest (page_urls @ [full_page_url]))"

text \<open>
  \<open>pool.imap(f, xs)\<close> yields the results in the order of \<open>xs\<close>; when a call raised, the
  iteration re-raises at that position. The value is the results yielded and the exception
  that ended the iteration, if any.
\<close>

fun imap :: "('a \<Rightarrow> error + 'b) \<Rightarrow> 'a list \<Rightarrow> 'b list \<times> error option" where
  "imap f [] = ([], None)"
| "imap f (x # xs) =
     (case f x of
        Inl e \<Rightarrow> ([], Some e)
      | Inr y \<Rightarrow> (case imap f xs of (ys, err) \<Rightarrow> (y # ys, err)))"

text \<open>The body of the \<open>for\<close> loop over the results: two writes for every record.\<close>

fun write_products :: "ProductData option list \<Rightarrow> string \<Rightarrow> string" where
  "write_products [] out = out"
| "write_products (product # rest) out =
     (case product of
        None \<Rightarrow> write_products rest out
      | Some p \<Rightarrow> write_products rest ((out @ dumps (dict_of p)) @ [CHR 0x0A]))"

text \<open>The predicate of the \<open>filter\<close> call, on the joined URL.\<close>

definition url_filter :: "string \<Rightarrow> bool" where
  "url_filter x = (contains ''/product/'' x \<and> \<not> contains ''reviews'' x)"

text \<open>
  The URLs handed to the pool: every page URL joined with the site URL, then filtered
  (an exception of \<open>urljoin\<close> ends the run).
\<close>

definition filtered_page_urls ::
  "(string \<Rightarrow> bool) \<Rightarrow> string \<Rightarrow> SitemapPage list \<Rightarrow> error + string list" where
  "filtered_page_urls valid base pgs =
     (case join_pages valid base pgs [] of
        Inl e \<Rightarrow> Inl e
      | Inr page_urls \<Rightarrow> Inr (filter url_filter page_urls))"

text \<open>
  \<open>download_and_save\<close>. The state is the content of the file at
  \<open>os.path.join(DATA_DIR, file_name)\<close>, taken to be writable: the function takes the content
  before the run and returns how the run ended and the content after it. The file is
  opened with mode \<open>'w'\<close>, which empties it, once the sitemap has been resolved.
  \<open>pool.imap\<close> passes the URL alone, so \<open>content_selector\<close> has its default.
\<close>

definition download_and_save :: "env \<Rightarrow> bool \<Rightarrow> string \<Rightarrow> (error + unit) \<times> string" where
  "download_and_save E spl file_before =
     (let page_url = ''https://mamaearth.in/'';
          site_map_url = page_url @ ''sitemap.xml'';
          crawler = Crawler_init page_url True spl
      in case download_sitemap E crawler (Some site_map_url) of
           Inl e \<Rightarrow> (Inl e, file_before)
         | Inr pgs \<Rightarrow>
             (let out = '''' in
              case filtered_page_urls (netloc_ok E) page_url pgs of
                Inl e \<Rightarrow> (Inl e, out)
              | Inr page_urls \<Rightarrow>
                  (case imap (\<lambda>u. crawl_page E crawler u ''product'') page_urls of
                     (products, err) \<Rightarrow>
                       ((case err of None \<Rightarrow> Inr () | Some e \<Rightarrow> Inl e),
                        write_products products out))))"

section \<open>Reading a line back\<close>

text \<open>
  What it means that a line parses back to a record is fixed by a decoder written after
  the scanner of \<open>json.loads\<close>, for the JSON texts that matter here: an object whose
  values are strings, \<open>null\<close> or lists of strings. A string literal ends at the first
  unescaped double quote; a backslash introduces one of the short escapes or \<open>\uXXXX\<close>
  (code points from 256 on are outside the model of strings); a control character inside
  a literal is rejected. White space between tokens is skipped. A later duplicate of a key
  wins, as in a Python \<open>dict\<close>. A record needs the four string fields and \<open>sections\<close>.
\<close>

datatype token = LBrace | RBrace | LBracket | RBracket | Colon | Comma | Null | Str string

definition hexval :: "char \<Rightarrow> nat option" where
  "hexval c =
     (let n = (of_char c :: nat) in
      if 48 \<le> n \<and> n \<le> 57 then Some (n - 48)
      else if 97 \<le> n \<and> n \<le> 102 then Some (n - 87)
      else if 65 \<le> n \<and> n \<le> 70 then Some (n - 55)
      else None)"

definition unescape :: "char \<Rightarrow> char option" where
  "unescape e =
     (if e = CHR 0x22 then Some (CHR 0x22)
      else if e = CHR 0x5C then Some (CHR 0x5C)
      else if e = CHR ''/'' then Some (CHR ''/'')
      else if e = CHR ''b'' then Some (CHR 0x08)
      else if e = CHR ''f'' then Some (CHR 0x0C)
      else if e = CHR ''n'' then Some (CHR 0x0A)
      else if e = CHR ''r'' then Some (CHR 0x0D)
      else if e = CHR ''t'' then Some (CHR 0x09)
      else None)"

definition decode_uXXXX :: "string \<Rightarrow> char option" where
  "decode_uXXXX esc =
     (case map hexval esc of
        [Some x3, Some x2, Some x1, Some x0] \<Rightarrow>
          (let n = ((x3 * 16 + x2) * 16 + x1) * 16 + x0 in
           if n < 256 then Some (char_of n) else None)
      | _ \<Rightarrow> None)"

fun scanstring :: "string \<Rightarrow> (string \<times> string) option" where
  "scanstring [] = None"
| "scanstring (c # cs) =
     (if c = CHR 0x22 then Some ([], cs)
      else if c = CHR 0x5C then
        (case cs of
           [] \<Rightarrow> None
         | e # cs1 \<Rightarrow>
             if e = CHR ''u'' then
               (case decode_uXXXX (take 4 cs1) of
                  None \<Rightarrow> None
                | Some ch \<Rightarrow> map_option (\<lambda>(s, r). (ch # s, r)) (scanstring (drop 4 cs1)))
             else
               (case unescape e of
                  None \<Rightarrow> None
                | Some ch \<Rightarrow> map_option (\<lambda>(s, r). (ch # s, r)) (scanstring cs1)))
      else if (of_char c :: nat) < 32 then None
      else map_option (\<lambda>(s, r). (c # s, r)) (scanstring cs))"

lemma scanstring_shorter: "scanstring s = Some (x, r) \<Longrightarrow> length r < length s"
proof (induction s arbitrary: x r rule: scanstring.induct)
  case 1
  then show ?case by simp
next
  case (2 c cs)
  then show ?case
    by (fastforce split: if_splits list.splits option.splits)
qed

text \<open>The tokens of a JSON text.\<close>

definition whitespace :: "string" where
  "whitespace = [CHR '' '', CHR 0x09, CHR 0x0A, CHR 0x0D]"

function tokenize :: "string \<Rightarrow> token list option" where
  "tokenize [] = Some []"
| "tokenize (c # cs) =
     (if c \<in> set whitespace then tokenize cs
      else if c = CHR ''{'' then map_option (Cons LBrace) (tokenize cs)
      else if c = CHR ''}'' then map_option (Cons RBrace) (tokenize cs)
      else if c = CHR ''['' then map_option (Cons LBracket) (tokenize cs)
      else if c = CHR '']'' then map_option (Cons RBracket) (tokenize cs)
      else if c = CHR '':'' then map_option (Cons Colon) (tokenize cs)
      else if c = CHR '','' then map_option (Cons Comma) (tokenize cs)
      else if c = CHR 0x22 then
        (case scanstring cs of
           None \<Rightarrow> None
         | Some (s, r) \<Rightarrow> map_option (Cons (Str s)) (tokenize r))
      else if take 4 (c # cs) = ''null'' then map_option (Cons Null) (tokenize (drop 3 cs))
      else None)"
  by pat_completeness auto
termination
  by (relation "measure length") (auto dest: scanstring_shorter)

fun elems :: "token list \<Rightarrow> (pyvalue list \<times> token list) option" where
  "elems (Str s # RBracket # r) = Some ([PyStr s], r)"
| "elems (Str s # Comma # r) = map_option (\<lambda>(xs, r'). (PyStr s # xs, r')) (elems r)"
| "elems ts = None"

fun json_value :: "token list \<Rightarrow> (pyvalue \<times> token list) option" where
  "json_value (Str s # r) = Some (PyStr s, r)"
| "json_value (Null # r) = Some (PyNone, r)"
| "json_value (LBracket # RBracket # r) = Some (PyList [], r)"
| "json_value (LBracket # r) = map_option (\<lambda>(xs, r'). (PyList xs, r')) (elems r)"
| "json_value ts = None"

lemma elems_shorter: "elems ts = Some (xs, r) \<Longrightarrow> length r < length ts"
  by (induction ts arbitrary: xs r rule: elems.induct) auto

lemma json_value_shorter: "json_value ts = Some (v, r) \<Longrightarrow> length r < length ts"
  by (induction ts rule: json_value.induct) (auto dest: elems_shorter)

function (sequential) members ::
  "token list \<Rightarrow> ((string \<times> pyvalue) list \<times> token list) option" where
  "members (Str k # Colon # r) =
     (case json_value r of
        None \<Rightarrow> None
      | Some (v, r') \<Rightarrow>
          (case r' of
             RBrace # r'' \<Rightarrow> Some ([(k, v)], r'')
           | Comma # r'' \<Rightarrow> map_option (\<lambda>(kvs, t). ((k, v) # kvs, t)) (members r'')
           | _ \<Rightarrow> None))"
| "members ts = None"
  by pat_completeness auto
termination
  by (relation "measure length") (auto dest: json_value_shorter)

definition loads :: "string \<Rightarrow> pyvalue option" where
  "loads s =
     (case tokenize s of
        Some (LBrace # ts) \<Rightarrow>
          (if ts = [RBrace] then Some (PyDict [])
           else case members ts of
                  Some (kvs, []) \<Rightarrow> Some (PyDict kvs)
                | _ \<Rightarrow> None)
      | _ \<Rightarrow> None)"

fun str_of :: "pyvalue \<Rightarrow> string option" where
  "str_of (PyStr s) = Some s"
| "str_of v = None"

fun strs_of :: "pyvalue list \<Rightarrow> string list option" where
  "strs_of [] = Some []"
| "strs_of (v # vs) =
     (case (str_of v, strs_of vs) of (Some s, Some ss) \<Rightarrow> Some (s # ss) | _ \<Rightarrow> None)"

definition get_str :: "(string \<times> pyvalue) list \<Rightarrow> string \<Rightarrow> string option" where
  "get_str d k = (case map_of (rev d) k of Some (PyStr s) \<Rightarrow> Some s | _ \<Rightarrow> None)"

definition record_of :: "pyvalue \<Rightarrow> ProductData option" where
  "record_of v =
     (case v of
        PyDict d \<Rightarrow>
          (case (get_str d ''title'', get_str d ''description'', get_str d ''subtitle'',
                 get_str d ''url'') of
             (Some t, Some de, Some su, Some u) \<Rightarrow>
               (case map_of (rev d) ''sections'' of
                  Some PyNone \<Rightarrow>
                    Some \<lparr>title = t, description = de, subtitle = su, url = u, sections = None\<rparr>
                | Some (PyList vs) \<Rightarrow>
                    (case strs_of vs of
                       Some ss \<Rightarrow>
                         Some \<lparr>title = t, description = de, subtitle = su, url = u,
                               sections = Some ss\<rparr>
                     | None \<Rightarrow> None)
                | _ \<Rightarrow> None)
           | _ \<Rightarrow> None)
      | _ \<Rightarrow> None)"

definition loads_record :: "string \<Rightarrow> ProductData option" where
  "loads_record line = (case loads line of None \<Rightarrow> None | Some v \<Rightarrow> record_of v)"


text \<open>The tokens of the elements of a list of strings, without the brackets.\<close>

fun string_tokens :: "string list \<Rightarrow> token list" where
  "string_tokens [] = []"
| "string_tokens [x] = [Str x]"
| "string_tokens (x # y # ys) = Str x # Comma # string_tokens (y # ys)"

section \<open>An example site\<close>

text \<open>
  The markup of a product page as the selectors expect it and the nodes built from it, the
  same page with an empty \<open>h1\<close>, a page with an empty body, and markup that the parser
  rejects.
\<close>

definition example_html :: "string" where
  \<open>example_html =
     ''<html><body><h1 class="product-name">Onion Oil</h1>''
     @ ''<div class="details"><h2 class="product-description-header">Description</h2>''
     @ ''<p>Good<b> oil</b></p></div>''
     @ ''<div class="product-subtitle">For hair</div></body></html>''\<close>

definition example_page :: "node list" where
  "example_page =
     [Tag ''html'' []
        [Tag ''body'' []
           [Tag ''h1'' [''product-name''] [NavigableString ''Onion Oil''],
            Tag ''div'' [''details'']
              [Tag ''h2'' [''product-description-header''] [NavigableString ''Description''],
               Tag ''p'' [] [NavigableString ''Good'', Tag ''b'' [] [NavigableString '' oil'']]],
            Tag ''div'' [''product-subtitle''] [NavigableString ''For hair'']]]]"

definition empty_title_html :: "string" where
  \<open>empty_title_html =
     ''<html><body><h1 class="product-name"></h1>''
     @ ''<div class="details"><h2 class="product-description-header">Description</h2>''
     @ ''<p>Good<b> oil</b></p></div>''
     @ ''<div class="product-subtitle">For hair</div></body></html>''\<close>

definition empty_title_page :: "node list" where
  "empty_title_page =
     [Tag ''html'' []
        [Tag ''body'' []
           [Tag ''h1'' [''product-name''] [],
            Tag ''div'' [''details'']
              [Tag ''h2'' [''product-description-header''] [NavigableString ''Description''],
               Tag ''p'' [] [NavigableString ''Good'', Tag ''b'' [] [NavigableString '' oil'']]],
            Tag ''div'' [''product-subtitle''] [NavigableString ''For hair'']]]]"

definition empty_body_html :: "string" where
  "empty_body_html = ''<html><body></body></html>''"

definition rejected_html :: "string" where
  "rejected_html = ''<![foo bar]>''"

text \<open>
  The builder on these documents; other bytes are taken as one text node.
\<close>

definition example_parser :: "string \<Rightarrow> error + node list" where
  "example_parser markup =
     (if markup = example_html then Inr example_page
      else if markup = empty_title_html then Inr empty_title_page
      else if markup = empty_body_html then Inr [Tag ''html'' [] [Tag ''body'' [] []]]
      else if markup = rejected_html then Inl (LibraryError ''ParserRejectedMarkup'')
      else if markup = '''' then Inr []
      else Inr [NavigableString markup])"

text \<open>
  A small site: \<open>/product/a\<close> is served with status 200, \<open>/product/b\<close> answers 404,
  \<open>/product/d\<close> answers 300 and \<open>/product/g\<close> answers 600, both with the product page as
  their body, \<open>/product/e\<close> serves the page with the empty \<open>h1\<close>, \<open>/product/f\<close> the page
  with an empty body, \<open>/product/h\<close> the markup that the parser rejects; the host \<open>x\<close>
  serves the product page at \<open>/product/a\<close>; a request for any other URL raises a
  connection error.
\<close>

definition example_web :: "string \<Rightarrow> error + Response" where
  "example_web u =
     (if u = ''https://mamaearth.in/product/a''
      then Inr \<lparr>status_code = 200, content = example_html\<rparr>
      else if u = ''https://mamaearth.in/product/b''
      then Inr \<lparr>status_code = 404, content = ''''\<rparr>
      else if u = ''https://mamaearth.in/product/d''
      then Inr \<lparr>status_code = 300, content = example_html\<rparr>
      else if u = ''https://mamaearth.in/product/e''
      then Inr \<lparr>status_code = 200, content = empty_title_html\<rparr>
      else if u = ''https://mamaearth.in/product/f''
      then Inr \<lparr>status_code = 200, content = empty_body_html\<rparr>
      else if u = ''https://mamaearth.in/product/g''
      then Inr \<lparr>status_code = 600, content = example_html\<rparr>
      else if u = ''https://mamaearth.in/product/h''
      then Inr \<lparr>status_code = 200, content = rejected_html\<rparr>
      else if u = ''https://x/product/a''
      then Inr \<lparr>status_code = 200, content = example_html\<rparr>
      else Inl (LibraryError ''ConnectionError''))"

text \<open>The site with a given sitemap behind every sitemap URL.\<close>

definition example_env :: "sitemap \<Rightarrow> env" where
  "example_env sm =
     \<lparr>netloc_ok = (\<lambda>n. True), requests_get = example_web, html_parser = example_parser,
      SitemapFetcher_sitemap = (\<lambda>u. Inr sm),
      sitemap_tree_for_homepage = (\<lambda>u. Inr sm)\<rparr>"

definition example_sitemap :: "sitemap" where
  "example_sitemap =
     PagesSitemap ''https://mamaearth.in/sitemap.xml''
       [SitemapPage ''https://mamaearth.in/product/a'', SitemapPage ''/product/b'',
        SitemapPage ''https://mamaearth.in/about'', SitemapPage ''/product/a/reviews'']"


text \<open>A sitemap whose first product page is markup that the parser rejects.\<close>

definition rejecting_sitemap :: "sitemap" where
  "rejecting_sitemap =
     PagesSitemap ''https://mamaearth.in/sitemap.xml''
       [SitemapPage ''/product/h'', SitemapPage ''/product/a'']"

text \<open>The sitemap of the host \<open>x\<close> with three pages.\<close>

definition x_sitemap :: "sitemap" where
  "x_sitemap =
     PagesSitemap ''https://mamaearth.in/sitemap.xml''
       [SitemapPage ''https://x/product/a'', SitemapPage ''https://x/other'',
        SitemapPage ''https://x/product/b/reviews'']"

definition example_crawler :: "Crawler" where
  "example_crawler = Crawler_init ''https://mamaearth.in/'' True True"

section \<open>Printable output\<close>

text \<open>A string of printable ASCII characters only, from space to tilde.\<close>

definition printable :: "string \<Rightarrow> bool" where
  "printable s = list_all (\<lambda>c. 32 \<le> (of_char c :: nat) \<and> (of_char c :: nat) \<le> 126) s"

section \<open>Properties of the URL functions\<close>

text \<open>
  The validation of the authority part decides only between \<open>ValueError\<close> and the result
  that the splitting gives without it.
\<close>

lemma urlsplit_valid:
  "urlsplit valid u s =
     (case urlsplit (\<lambda>n. True) u s of
        Inl e \<Rightarrow> Inl e
      | Inr (sc, nl, p, q, f) \<Rightarrow>
          if nl \<noteq> '''' \<and> \<not> valid nl then Inl ValueError else Inr (sc, nl, p, q, f))"
  by (simp add: urlsplit_def Let_def split: prod.splits)

lemma urlparse_valid:
  "urlparse valid u s =
     (case urlparse (\<lambda>n. True) u s of
        Inl e \<Rightarrow> Inl e
      | Inr (sc, nl, p, pa, q, f) \<Rightarrow>
          if nl \<noteq> '''' \<and> \<not> valid nl then Inl ValueError else Inr (sc, nl, p, pa, q, f))"
  unfolding urlparse_def
  by (subst urlsplit_valid) (auto simp add: Let_def split: prod.splits sum.splits)

lemma urlparse_site:
  "urlparse (\<lambda>n. True) ''https://mamaearth.in/'' '''' =
     Inr (''https'', ''mamaearth.in'', ''/'', '''', '''', '''')"
  by code_simp

lemma urlparse_x_product_a:
  "urlparse (\<lambda>n. True) ''https://x/product/a'' ''https'' =
     Inr (''https'', ''x'', ''/product/a'', '''', '''', '''')"
  by code_simp

lemma urlparse_x_other:
  "urlparse (\<lambda>n. True) ''https://x/other'' ''https'' =
     Inr (''https'', ''x'', ''/other'', '''', '''', '''')"
  by code_simp

lemma urlparse_x_product_b_reviews:
  "urlparse (\<lambda>n. True) ''https://x/product/b/reviews'' ''https'' =
     Inr (''https'', ''x'', ''/product/b/reviews'', '''', '''', '''')"
  by code_simp

lemma urljoin_absolute:
  assumes "valid ''mamaearth.in''" and "valid nl" and "nl \<noteq> ''''"
    and "urlparse (\<lambda>n. True) u ''https'' = Inr (''https'', nl, p, '''', '''', '''')"
    and "u = ''https://'' @ nl @ p" and "take 1 p = ''/''" and "u \<noteq> ''''"
  shows "urljoin valid ''https://mamaearth.in/'' u = Inr u"
proof -
  have b: "urlparse valid ''https://mamaearth.in/'' '''' =
             Inr (''https'', ''mamaearth.in'', ''/'', '''', '''', '''')"
    by (subst urlparse_valid) (simp add: urlparse_site assms(1))
  have c: "urlparse valid u ''https'' = Inr (''https'', nl, p, '''', '''', '''')"
    using assms(2,3,4) by (subst urlparse_valid) simp
  have p: "p \<noteq> ''''" using assms(6) by auto
  have "urljoin valid ''https://mamaearth.in/'' u
          = Inr (urlunparse (''https'', nl, p, '''', '''', ''''))"
    unfolding urljoin_def using assms(3,7)
    by (simp add: b c uses_relative_def uses_netloc_def)
  moreover have "urlunparse (''https'', nl, p, '''', '''', '''') = ''https://'' @ nl @ p"
    using assms(3,6) p by (simp add: urlunparse_def urlunsplit_def uses_netloc_def)
  ultimately show ?thesis using assms(5) by simp
qed

section \<open>Properties of \<open>crawl_page\<close> and of the loops\<close>

lemma try_block_Inr:
  "try_block soup u secs = Inr r \<longleftrightarrow>
     (\<exists>pn h2 p st.
        soup_find soup ''h1'' (Some ''product-name'') = Some pn
        \<and> soup_find soup ''h2'' (Some ''product-description-header'') = Some h2
        \<and> soup_find (parent h2) ''p'' None = Some p
        \<and> soup_find soup ''div'' (Some ''product-subtitle'') = Some st
        \<and> r = \<lparr>title = get_text pn, description = get_text p, subtitle = get_text st,
                url = u, sections = Some secs\<rparr>)"
  by (auto simp add: try_block_def Let_def split: option.splits)

lemma crawl_page_after_fetch:
  assumes "get_path_hierarchy (netloc_ok E) u = Inr secs" and "requests_get E u = Inr resp"
  shows "crawl_page E self u sel =
           (if \<not> ok resp then Inr None
            else case html_parser E (content resp) of
                   Inl e \<Rightarrow> Inl e
                 | Inr nodes \<Rightarrow>
                     (case try_block (Tag ''[document]'' [] nodes) u secs of
                        Inr product \<Rightarrow> Inr (Some product) | Inl e \<Rightarrow> Inr None))"
  using assms by (simp add: crawl_page_def BeautifulSoup_def split: sum.splits)

lemma crawl_page_Some:
  "crawl_page E self u sel = Inr (Some r) \<longleftrightarrow>
     (\<exists>secs resp nodes.
        get_path_hierarchy (netloc_ok E) u = Inr secs \<and> requests_get E u = Inr resp
        \<and> ok resp \<and> html_parser E (content resp) = Inr nodes
        \<and> try_block (Tag ''[document]'' [] nodes) u secs = Inr r)"
  by (auto simp add: crawl_page_def BeautifulSoup_def split: sum.splits option.splits)

lemma crawl_page_Some_url:
  assumes "crawl_page E self u sel = Inr (Some r)"
  shows "url r = u \<and> (\<exists>secs. sections r = Some secs \<and> get_path_hierarchy (netloc_ok E) u = Inr secs)"
  using assms unfolding crawl_page_Some try_block_Inr by auto


lemma download_and_save_resolved:
  assumes "download_sitemap E (Crawler_init ''https://mamaearth.in/'' True spl)
             (Some ''https://mamaearth.in/sitemap.xml'') = Inr pgs"
    and "filtered_page_urls (netloc_ok E) ''https://mamaearth.in/'' pgs = Inr us"
  shows "download_and_save E spl f0 =
           ((case snd (imap (\<lambda>u. crawl_page E (Crawler_init ''https://mamaearth.in/'' True spl) u ''product'') us) of
               None \<Rightarrow> Inr () | Some e \<Rightarrow> Inl e),
            write_products
              (fst (imap (\<lambda>u. crawl_page E (Crawler_init ''https://mamaearth.in/'' True spl) u ''product'') us)) '''')"
  using assms by (simp add: download_and_save_def Let_def split: prod.splits)

lemma download_and_save_discards:
  assumes "download_sitemap E (Crawler_init ''https://mamaearth.in/'' True spl)
             (Some ''https://mamaearth.in/sitemap.xml'') = Inr pgs"
  shows "download_and_save E spl f0 = download_and_save E spl f1"
  using assms by (simp add: download_and_save_def Let_def split: prod.splits)


lemma imap_result_origin:
  "y \<in> set (fst (imap f xs)) \<Longrightarrow> \<exists>x \<in> set xs. f x = Inr y"
  by (induction xs arbitrary: y) (auto split: sum.splits prod.splits)

lemma imap_skip:
  "f x = Inr y \<Longrightarrow> imap f (x # xs) = (y # fst (imap f xs), snd (imap f xs))"
  by (simp split: prod.splits)


lemma imap_drop_None:
  assumes "f u = Inr None"
  shows "snd (imap f (xs @ u # ys)) = snd (imap f (xs @ ys))
         \<and> write_products (fst (imap f (xs @ u # ys))) out
             = write_products (fst (imap f (xs @ ys))) out"
  using assms by (induction xs arbitrary: out) (auto split: sum.splits prod.splits option.splits)

lemma write_products_eq:
  "write_products rs out =
     out @ concat (map (\<lambda>p. dumps (dict_of p) @ [CHR 0x0A]) [p. Some p \<leftarrow> rs])"
  by (induction rs arbitrary: out) (auto split: option.splits)

lemma hexdigit_printable:
  "d < 16 \<Longrightarrow> 32 \<le> (of_char (hexdigit d) :: nat) \<and> (of_char (hexdigit d) :: nat) \<le> 126"
proof -
  assume "d < 16"
  have "list_all (\<lambda>d. 32 \<le> (of_char (hexdigit d) :: nat) \<and> (of_char (hexdigit d) :: nat) \<le> 126)
          [0 ..< 16]"
    by code_simp
  with \<open>d < 16\<close> show ?thesis by (simp add: list_all_iff)
qed

lemma printable_Nil [simp]: "printable []"
  by (simp add: printable_def)

lemma printable_Cons [simp]:
  "printable (c # s) = (32 \<le> (of_char c :: nat) \<and> (of_char c :: nat) \<le> 126 \<and> printable s)"
  by (simp add: printable_def)

lemma printable_append [simp]: "printable (a @ b) = (printable a \<and> printable b)"
  by (simp add: printable_def)

lemma printable_escape_char: "printable (escape_char c)"
  by (simp add: escape_char_def Let_def hexdigit_printable)

lemma printable_concat: "(\<And>x. x \<in> set xs \<Longrightarrow> printable x) \<Longrightarrow> printable (concat xs)"
  by (induction xs) auto

lemma printable_encode: "printable (encode_basestring_ascii s)"
proof -
  have "printable (concat (map escape_char s))"
    by (rule printable_concat) (auto simp add: printable_escape_char)
  then show ?thesis unfolding encode_basestring_ascii_def by simp
qed


lemma printable_join:
  "printable sep \<Longrightarrow> (\<And>x. x \<in> set xs \<Longrightarrow> printable x) \<Longrightarrow> printable (join sep xs)"
  by (induction sep xs rule: join.induct) auto

lemma newline_not_printable: "printable s \<Longrightarrow> CHR 0x0A \<notin> set s"
  by (induction s) auto

lemma dumps_dict_of:
  \<open>dumps (dict_of p) =
     ''{"title": '' @ encode_basestring_ascii (title p)
     @ '', "description": '' @ encode_basestring_ascii (description p)
     @ '', "subtitle": '' @ encode_basestring_ascii (subtitle p)
     @ '', "url": '' @ encode_basestring_ascii (url p)
     @ '', "sections": ''
     @ (case sections p of
          None \<Rightarrow> ''null''
        | Some secs \<Rightarrow> ''['' @ join '', '' (map encode_basestring_ascii secs) @ '']'')
     @ ''}''\<close>
proof -
  have k: \<open>encode_basestring_ascii ''title'' = ''"title"''\<close>
    \<open>encode_basestring_ascii ''description'' = ''"description"''\<close>
    \<open>encode_basestring_ascii ''subtitle'' = ''"subtitle"''\<close>
    \<open>encode_basestring_ascii ''url'' = ''"url"''\<close>
    \<open>encode_basestring_ascii ''sections'' = ''"sections"''\<close>
    by code_simp+
  show ?thesis
    by (simp add: dict_of_def k comp_def split: option.splits)
qed

lemma printable_dumps_dict_of: "printable (dumps (dict_of p))"
proof -
  have j: "printable (join '', '' (map encode_basestring_ascii secs))" for secs
    by (rule printable_join) (auto simp add: printable_encode)
  show ?thesis
    unfolding dumps_dict_of
    by (simp add: j printable_encode split: option.splits)
qed


section \<open>Decoding what \<open>json.dumps\<close> wrote\<close>

lemma hexval_hexdigit: "d < 16 \<Longrightarrow> hexval (hexdigit d) = Some d"
proof -
  assume "d < 16"
  have "list_all (\<lambda>d. hexval (hexdigit d) = Some d) [0 ..< 16]"
    by code_simp
  with \<open>d < 16\<close> show ?thesis by (simp add: list_all_iff)
qed

lemma decode_uXXXX_hex:
  assumes "n < 256"
  shows "decode_uXXXX (map hexdigit [n div 4096 mod 16, n div 256 mod 16, n div 16 mod 16, n mod 16])
           = Some (char_of n)"
proof -
  have "n div 4096 = 0" "n div 256 = 0" using assms by simp_all
  moreover have "n div 16 < 16" using assms by simp
  moreover have "n div 16 * 16 + n mod 16 = n" by simp
  ultimately show ?thesis
    using assms by (simp add: decode_uXXXX_def hexval_hexdigit Let_def)
qed

lemma scanstring_escape_char:
  "scanstring (escape_char c @ rest) = map_option (\<lambda>(s, r). (c # s, r)) (scanstring rest)"
proof -
  consider (bs) "c = CHR 0x5C" | (q) "c = CHR 0x22" | (b) "c = CHR 0x08" | (f) "c = CHR 0x0C"
    | (n) "c = CHR 0x0A" | (r) "c = CHR 0x0D" | (t) "c = CHR 0x09"
    | (plain) "c \<notin> {CHR 0x5C, CHR 0x22, CHR 0x08, CHR 0x0C, CHR 0x0A, CHR 0x0D, CHR 0x09}"
        "32 \<le> (of_char c :: nat)" "(of_char c :: nat) \<le> 126"
    | (uni) "c \<notin> {CHR 0x5C, CHR 0x22, CHR 0x08, CHR 0x0C, CHR 0x0A, CHR 0x0D, CHR 0x09}"
        "\<not> (32 \<le> (of_char c :: nat) \<and> (of_char c :: nat) \<le> 126)"
    by blast
  then show ?thesis
  proof cases
    case plain
    then show ?thesis by (simp add: escape_char_def)
  next
    case uni
    have lt: "(of_char c :: nat) < 256" by simp
    have e: "escape_char c = [CHR 0x5C, CHR ''u''] @
         map hexdigit [of_char c div 4096 mod 16, of_char c div 256 mod 16,
                       of_char c div 16 mod 16, of_char c mod 16]"
      using uni by (simp add: escape_char_def Let_def)
    show ?thesis
      unfolding e using decode_uXXXX_hex [OF lt] by simp
  qed (simp_all add: escape_char_def unescape_def)
qed

lemma scanstring_escaped:
  "scanstring (concat (map escape_char s) @ CHR 0x22 # rest) = Some (s, rest)"
  by (induction s) (simp_all add: scanstring_escape_char)

lemma tokenize_string:
  "tokenize (encode_basestring_ascii s @ rest) = map_option (Cons (Str s)) (tokenize rest)"
  by (simp add: encode_basestring_ascii_def whitespace_def scanstring_escaped)

lemma tokenize_punct:
  "tokenize (CHR ''{'' # rest) = map_option (Cons LBrace) (tokenize rest)"
  "tokenize (CHR ''}'' # rest) = map_option (Cons RBrace) (tokenize rest)"
  "tokenize (CHR ''['' # rest) = map_option (Cons LBracket) (tokenize rest)"
  "tokenize (CHR '']'' # rest) = map_option (Cons RBracket) (tokenize rest)"
  "tokenize (CHR '':'' # CHR '' '' # rest) = map_option (Cons Colon) (tokenize rest)"
  "tokenize (CHR '','' # CHR '' '' # rest) = map_option (Cons Comma) (tokenize rest)"
  "tokenize (CHR ''n'' # CHR ''u'' # CHR ''l'' # CHR ''l'' # rest)
     = map_option (Cons Null) (tokenize rest)"
  by (simp_all add: whitespace_def)

lemma tokenize_join:
  "tokenize (join '', '' (map encode_basestring_ascii xs) @ rest)
     = map_option (\<lambda>ts. string_tokens xs @ ts) (tokenize rest)"
proof (induction xs rule: string_tokens.induct)
  case 1
  then show ?case by (simp add: option.map_ident)
next
  case (2 x)
  then show ?case by (simp add: tokenize_string option.map_comp comp_def)
next
  case (3 x y ys)
  have "tokenize (join '', '' (map encode_basestring_ascii (x # y # ys)) @ rest)
          = tokenize (encode_basestring_ascii x @ '', ''
              @ join '', '' (map encode_basestring_ascii (y # ys)) @ rest)"
    by simp
  also have "\<dots> = map_option (Cons (Str x)) (map_option (Cons Comma)
               (tokenize (join '', '' (map encode_basestring_ascii (y # ys)) @ rest)))"
    by (simp only: tokenize_string tokenize_punct append.simps)
  finally show ?case
    unfolding 3 by (simp add: option.map_comp comp_def)
qed

lemma elems_string_tokens:
  "xs \<noteq> [] \<Longrightarrow> elems (string_tokens xs @ RBracket # r) = Some (map PyStr xs, r)"
  by (induction xs rule: string_tokens.induct) simp_all

lemma strs_of_map_PyStr: "strs_of (map PyStr xs) = Some xs"
  by (induction xs) simp_all

lemma json_value_sections:
  "json_value (LBracket # string_tokens xs @ RBracket # r) = Some (PyList (map PyStr xs), r)"
proof (cases xs)
  case Nil
  then show ?thesis by simp
next
  case (Cons x ys)
  then have "string_tokens xs @ RBracket # r \<noteq> RBracket # r'" for r'
    by (cases ys) auto
  then obtain t ts where ts: "string_tokens xs @ RBracket # r = t # ts" "t \<noteq> RBracket"
    using Cons by (cases ys) auto
  have "json_value (LBracket # t # ts) = map_option (\<lambda>(xs, r'). (PyList xs, r')) (elems (t # ts))"
    using ts(2) by (cases t) simp_all
  then show ?thesis
    using ts(1) elems_string_tokens [of xs r] Cons by simp
qed

lemma tokenize_dumps_dict_of:
  "tokenize (dumps (dict_of p)) =
     Some ([LBrace, Str ''title'', Colon, Str (title p), Comma,
            Str ''description'', Colon, Str (description p), Comma,
            Str ''subtitle'', Colon, Str (subtitle p), Comma,
            Str ''url'', Colon, Str (url p), Comma,
            Str ''sections'', Colon]
           @ (case sections p of
                None \<Rightarrow> [Null]
              | Some xs \<Rightarrow> LBracket # string_tokens xs @ [RBracket])
           @ [RBrace])"
proof -
  have d: "dumps (dict_of p) =
      ''{'' @ encode_basestring_ascii ''title'' @ '': '' @ encode_basestring_ascii (title p)
      @ '', '' @ encode_basestring_ascii ''description'' @ '': ''
      @ encode_basestring_ascii (description p)
      @ '', '' @ encode_basestring_ascii ''subtitle'' @ '': ''
      @ encode_basestring_ascii (subtitle p)
      @ '', '' @ encode_basestring_ascii ''url'' @ '': '' @ encode_basestring_ascii (url p)
      @ '', '' @ encode_basestring_ascii ''sections'' @ '': ''
      @ (case sections p of
           None \<Rightarrow> ''null'' @ ''}''
         | Some xs \<Rightarrow> ''['' @ join '', '' (map encode_basestring_ascii xs) @ '']'' @ ''}'')"
    by (simp add: dict_of_def comp_def split: option.splits)
  show ?thesis
  proof (cases "sections p")
    case None
    show ?thesis
      unfolding d None option.case
      by (simp add: tokenize_string tokenize_punct del: tokenize.simps(2))
  next
    case (Some xs)
    show ?thesis
      unfolding d Some option.case
      by (simp add: tokenize_string tokenize_punct tokenize_join del: tokenize.simps(2))
  qed
qed

lemma loads_record_dumps: "loads_record (dumps (dict_of p)) = Some p"
proof (cases "sections p")
  case None
  then show ?thesis
    by (simp add: loads_record_def loads_def tokenize_dumps_dict_of record_of_def get_str_def)
next
  case (Some xs)
  have v: "json_value (LBracket # string_tokens xs @ [RBracket, RBrace])
             = Some (PyList (map PyStr xs), [RBrace])"
    using json_value_sections [of xs "[RBrace]"] by simp
  have m: "members (Str ''sections'' # Colon # LBracket # string_tokens xs @ [RBracket, RBrace])
             = Some ([(''sections'', PyList (map PyStr xs))], [])"
    by (simp add: v)
  have n: "LBracket # string_tokens xs @ [RBracket, RBrace] \<noteq> [RBrace]" by simp
  from Some show ?thesis
    by (simp add: loads_record_def loads_def tokenize_dumps_dict_of record_of_def get_str_def
          v m strs_of_map_PyStr)
qed


lemma loads_dumps_dict_of: "loads (dumps (dict_of p)) = Some (dict_of p)"
proof (cases "sections p")
  case None
  then show ?thesis
    unfolding loads_def tokenize_dumps_dict_of by (simp add: dict_of_def)
next
  case (Some xs)
  have v: "json_value (LBracket # string_tokens xs @ [RBracket, RBrace])
             = Some (PyList (map PyStr xs), [RBrace])"
    using json_value_sections [of xs "[RBrace]"] by simp
  have m: "members (Str ''sections'' # Colon # LBracket # string_tokens xs @ [RBracket, RBrace])
             = Some ([(''sections'', PyList (map PyStr xs))], [])"
    by (simp add: v)
  from Some show ?thesis
    unfolding loads_def tokenize_dumps_dict_of by (simp add: dict_of_def v m)
qed

section \<open>Runs on the example site\<close>

text \<open>A run on the example site.\<close>

lemma run_example:
  \<open>download_and_save (example_env example_sitemap) True '''' =
     (Inr (),
      ''{"title": "Onion Oil", "description": "Good oil", "subtitle": "For hair", ''
      @ ''"url": "https://mamaearth.in/product/a", "sections": ["product", "product/a"]}''
      @ [CHR 0x0A])\<close>
  by code_simp




lemma gph_b: "get_path_hierarchy (\<lambda>n. True) ''https://mamaearth.in/product/b'' = Inr [''product'', ''product/b'']"
  by code_simp



lemma download_sitemap_example:
  "download_sitemap (example_env example_sitemap) (Crawler_init ''https://mamaearth.in/'' True True)
     (Some ''https://mamaearth.in/sitemap.xml'') = Inr (all_pages example_sitemap)"
  by (simp add: download_sitemap_def example_env_def example_sitemap_def)

lemma filtered_example:
  "filtered_page_urls (\<lambda>n. True) ''https://mamaearth.in/'' (all_pages example_sitemap)
     = Inr [''https://mamaearth.in/product/a'', ''https://mamaearth.in/product/b'']"
  by code_simp

lemma download_and_save_lines:
  assumes "download_sitemap E (Crawler_init ''https://mamaearth.in/'' True spl)
             (Some ''https://mamaearth.in/sitemap.xml'') = Inr pgs"
  shows "\<exists>ps. snd (download_and_save E spl f0)
                = concat (map (\<lambda>p. dumps (dict_of p) @ [CHR 0x0A]) ps)"
proof (cases "filtered_page_urls (netloc_ok E) ''https://mamaearth.in/'' pgs")
  case (Inl e)
  with assms have "snd (download_and_save E spl f0) = ''''"
    by (simp add: download_and_save_def Let_def)
  then have "snd (download_and_save E spl f0)
               = concat (map (\<lambda>p. dumps (dict_of p) @ [CHR 0x0A]) [])"
    by simp
  then show ?thesis by blast
next
  case (Inr us)
  show ?thesis
    unfolding download_and_save_resolved [OF assms Inr] by (simp add: write_products_eq) blast
qed

lemma gph_g: "get_path_hierarchy (\<lambda>n. True) ''https://mamaearth.in/product/g'' = Inr [''product'', ''product/g'']"
  by code_simp

lemma run_x:
  \<open>download_and_save (example_env x_sitemap) True '''' =
     (Inr (),
      ''{"title": "Onion Oil", "description": "Good oil", "subtitle": "For hair", ''
      @ ''"url": "https://x/product/a", "sections": ["product", "product/a"]}''
      @ [CHR 0x0A])\<close>
  by code_simp

lemma download_sitemap_x:
  "download_sitemap (example_env x_sitemap) (Crawler_init ''https://mamaearth.in/'' True True)
     (Some ''https://mamaearth.in/sitemap.xml'') = Inr (all_pages x_sitemap)"
  by (simp add: download_sitemap_def example_env_def x_sitemap_def)

lemma run_rejecting:
  "download_and_save (example_env rejecting_sitemap) True ''''
     = (Inl (LibraryError ''ParserRejectedMarkup''), '''')"
  by code_simp


section \<open>The decomposer on the test vectors\<close>

text \<open>
  C4. On the four vectors of the docstring \<open>get_path_hierarchy\<close> returns the documented
  lists. On \<open>/\<close> it returns the list that holds the empty string, not the empty list: the
  test for an empty path comes before the slashes are stripped.
\<close>

theorem get_path_hierarchy_vectors:
  "get_path_hierarchy valid ''/foo/bar'' = Inr [''foo'', ''foo/bar'']
   \<and> get_path_hierarchy valid ''foo'' = Inr [''foo'']
   \<and> get_path_hierarchy valid ''/foo/'' = Inr [''foo'']
   \<and> get_path_hierarchy valid ''foo/bar/'' = Inr [''foo'', ''foo/bar'']
   \<and> get_path_hierarchy valid '''' = Inr []
   \<and> get_path_hierarchy valid ''/'' = Inr ['''']"
  by code_simp

section \<open>The filter\<close>

text \<open>
  C6. Of the three page URLs \<open>https://x/product/a\<close>, \<open>https://x/other\<close> and
  \<open>https://x/product/b/reviews\<close>, joined with the site URL and filtered, only
  \<open>https://x/product/a\<close> is left (the two host names pass the validation of \<open>urlsplit\<close>),
  and when the sitemap resolves to these three pages \<open>download_and_save\<close> hands exactly
  this one URL to \<open>pool.imap\<close>: the run is the call of \<open>crawl_page\<close> on it and the write
  of its record.
\<close>

theorem filter_dispatches_product_a:
  assumes "netloc_ok E ''mamaearth.in''" and "netloc_ok E ''x''"
  shows "filtered_page_urls (netloc_ok E) ''https://mamaearth.in/''
           [SitemapPage ''https://x/product/a'', SitemapPage ''https://x/other'',
            SitemapPage ''https://x/product/b/reviews'']
         = Inr [''https://x/product/a'']
       \<and> (download_sitemap E (Crawler_init ''https://mamaearth.in/'' True spl)
              (Some ''https://mamaearth.in/sitemap.xml'')
            = Inr [SitemapPage ''https://x/product/a'', SitemapPage ''https://x/other'',
                   SitemapPage ''https://x/product/b/reviews'']
          \<longrightarrow>
            download_and_save E spl file_before
              = (case imap (\<lambda>u. crawl_page E (Crawler_init ''https://mamaearth.in/'' True spl)
                                  u ''product'')
                        [''https://x/product/a''] of
                   (products, err) \<Rightarrow>
                     ((case err of None \<Rightarrow> Inr () | Some e \<Rightarrow> Inl e),
                      write_products products ''''))
            \<and> download_and_save E spl file_before
              = (case crawl_page E (Crawler_init ''https://mamaearth.in/'' True spl)
                        ''https://x/product/a'' ''product'' of
                   Inl e \<Rightarrow> (Inl e, '''')
                 | Inr None \<Rightarrow> (Inr (), '''')
                 | Inr (Some product) \<Rightarrow> (Inr (), dumps (dict_of product) @ [CHR 0x0A])))"
proof -
  have j1: "urljoin (netloc_ok E) ''https://mamaearth.in/'' ''https://x/product/a''
              = Inr ''https://x/product/a''"
    by (rule urljoin_absolute [OF assms(1) assms(2) _ urlparse_x_product_a]) simp_all
  have j2: "urljoin (netloc_ok E) ''https://mamaearth.in/'' ''https://x/other''
              = Inr ''https://x/other''"
    by (rule urljoin_absolute [OF assms(1) assms(2) _ urlparse_x_other]) simp_all
  have j3: "urljoin (netloc_ok E) ''https://mamaearth.in/'' ''https://x/product/b/reviews''
              = Inr ''https://x/product/b/reviews''"
    by (rule urljoin_absolute [OF assms(1) assms(2) _ urlparse_x_product_b_reviews]) simp_all
  have f: "filter url_filter [''https://x/product/a'', ''https://x/other'',
             ''https://x/product/b/reviews''] = [''https://x/product/a'']"
    by code_simp
  have fl: "filtered_page_urls (netloc_ok E) ''https://mamaearth.in/''
           [SitemapPage ''https://x/product/a'', SitemapPage ''https://x/other'',
            SitemapPage ''https://x/product/b/reviews'']
         = Inr [''https://x/product/a'']"
    unfolding filtered_page_urls_def by (simp add: j1 j2 j3 f del: filter.simps)
  have "download_and_save E spl file_before
              = (case imap (\<lambda>u. crawl_page E (Crawler_init ''https://mamaearth.in/'' True spl)
                                  u ''product'')
                        [''https://x/product/a''] of
                   (products, err) \<Rightarrow>
                     ((case err of None \<Rightarrow> Inr () | Some e \<Rightarrow> Inl e),
                      write_products products ''''))
            \<and> download_and_save E spl file_before
              = (case crawl_page E (Crawler_init ''https://mamaearth.in/'' True spl)
                        ''https://x/product/a'' ''product'' of
                   Inl e \<Rightarrow> (Inl e, '''')
                 | Inr None \<Rightarrow> (Inr (), '''')
                 | Inr (Some product) \<Rightarrow> (Inr (), dumps (dict_of product) @ [CHR 0x0A]))"
    if d: "download_sitemap E (Crawler_init ''https://mamaearth.in/'' True spl)
              (Some ''https://mamaearth.in/sitemap.xml'')
            = Inr [SitemapPage ''https://x/product/a'', SitemapPage ''https://x/other'',
                   SitemapPage ''https://x/product/b/reviews'']"
    unfolding download_and_save_resolved [OF d fl]
    by (simp split: sum.splits option.splits prod.splits)
  with fl show ?thesis by blast
qed

text \<open>The theorem on the example site whose sitemap lists the three pages.\<close>

theorem filter_dispatches_product_a_witness:
  \<open>filtered_page_urls (\<lambda>n. True) ''https://mamaearth.in/''
     [SitemapPage ''https://x/product/a'', SitemapPage ''https://x/other'',
      SitemapPage ''https://x/product/b/reviews'']
   = Inr [''https://x/product/a'']
   \<and> download_and_save (example_env x_sitemap) True ''''
     = (case imap (\<lambda>u. crawl_page (example_env x_sitemap)
                          (Crawler_init ''https://mamaearth.in/'' True True) u ''product'')
                [''https://x/product/a''] of
          (products, err) \<Rightarrow>
            ((case err of None \<Rightarrow> Inr () | Some e \<Rightarrow> Inl e), write_products products ''''))
   \<and> download_and_save (example_env x_sitemap) True ''''
     = (Inr (),
        ''{"title": "Onion Oil", "description": "Good oil", "subtitle": "For hair", ''
        @ ''"url": "https://x/product/a", "sections": ["product", "product/a"]}''
        @ [CHR 0x0A])\<close>
proof -
  have n: "netloc_ok (example_env x_sitemap) = (\<lambda>n. True)"
    by (simp add: example_env_def)
  have d: "download_sitemap (example_env x_sitemap) (Crawler_init ''https://mamaearth.in/'' True True)
             (Some ''https://mamaearth.in/sitemap.xml'')
           = Inr [SitemapPage ''https://x/product/a'', SitemapPage ''https://x/other'',
                  SitemapPage ''https://x/product/b/reviews'']"
    unfolding download_sitemap_x by (simp add: x_sitemap_def)
  from filter_dispatches_product_a [of "example_env x_sitemap" True "''''"] n d
  have "filtered_page_urls (\<lambda>n. True) ''https://mamaearth.in/''
          [SitemapPage ''https://x/product/a'', SitemapPage ''https://x/other'',
           SitemapPage ''https://x/product/b/reviews'']
        = Inr [''https://x/product/a'']"
    and "download_and_save (example_env x_sitemap) True ''''
     = (case imap (\<lambda>u. crawl_page (example_env x_sitemap)
                          (Crawler_init ''https://mamaearth.in/'' True True) u ''product'')
                [''https://x/product/a''] of
          (products, err) \<Rightarrow>
            ((case err of None \<Rightarrow> Inr () | Some e \<Rightarrow> Inl e), write_products products ''''))"
    by simp_all
  with run_x show ?thesis by simp
qed

section \<open>The explicit sitemap\<close>

text \<open>
  C9. When an explicit sitemap URL is given and the sitemap fetched from it is invalid,
  \<open>download_sitemap\<close> does not raise: it returns the pages of an index sitemap without
  sub-sitemaps, that is no page. The run of \<open>download_and_save\<close> then ends normally, with
  no URL crawled and an empty file.
\<close>

theorem download_sitemap_invalid_explicit:
  assumes "sitemap_url \<noteq> ''''"
    and "SitemapFetcher_sitemap E sitemap_url = Inr (InvalidSitemap su reason)"
  shows "download_sitemap E self (Some sitemap_url) = Inr []
         \<and> download_sitemap E self (Some sitemap_url)
             = Inr (all_pages (IndexSitemap (site self) []))
         \<and> (sitemap_url = ''https://mamaearth.in/sitemap.xml''
              \<longrightarrow> download_and_save E spl file_before = (Inr (), ''''))"
proof -
  have d: "download_sitemap E self (Some sitemap_url) = Inr []" for self
    using assms by (simp add: download_sitemap_def)
  have "download_and_save E spl file_before = (Inr (), '''')"
    if "sitemap_url = ''https://mamaearth.in/sitemap.xml''"
    using d [of "Crawler_init ''https://mamaearth.in/'' True spl"] that
    by (simp add: download_and_save_def filtered_page_urls_def)
  with d show ?thesis by simp
qed

text \<open>The theorem on the example site with an invalid sitemap behind the sitemap URL.\<close>

theorem download_sitemap_invalid_explicit_witness:
  "download_sitemap
     (example_env (InvalidSitemap ''https://mamaearth.in/sitemap.xml'' ''404''))
     example_crawler (Some ''https://mamaearth.in/sitemap.xml'') = Inr []
   \<and> download_and_save
         (example_env (InvalidSitemap ''https://mamaearth.in/sitemap.xml'' ''404''))
         True ''an earlier line'' = (Inr (), '''')"
  using download_sitemap_invalid_explicit
    [of "''https://mamaearth.in/sitemap.xml''"
        "example_env (InvalidSitemap ''https://mamaearth.in/sitemap.xml'' ''404'')"
        "''https://mamaearth.in/sitemap.xml''" "''404''" example_crawler True
        "''an earlier line''"]
  by (simp add: example_env_def)

section \<open>The unused parameter\<close>

text \<open>
  C10. \<open>crawl_page\<close> gives the same outcome for any two values of \<open>content_selector\<close>:
  the parameter is never read, the three selectors are constants of the method.
\<close>

theorem crawl_page_content_selector_unused:
  "crawl_page E self u selector1 = crawl_page E self u selector2"
  by (simp add: crawl_page_def)

section \<open>The records written\<close>

text \<open>
  C7. Once the sitemap is resolved and the page URLs are joined and filtered, the file
  after the run is a sequence of lines, one per record, and every record written has a
  \<open>url\<close> that is one of the filtered URLs, so it satisfies the filter predicate, and
  \<open>sections\<close> equal to the result of \<open>get_path_hierarchy\<close> on that URL.
\<close>

theorem written_records_come_from_filtered_urls:
  assumes "download_sitemap E (Crawler_init ''https://mamaearth.in/'' True spl)
             (Some ''https://mamaearth.in/sitemap.xml'') = Inr pgs"
    and "filtered_page_urls (netloc_ok E) ''https://mamaearth.in/'' pgs = Inr us"
  shows "\<exists>ps. snd (download_and_save E spl f0)
                = concat (map (\<lambda>p. dumps (dict_of p) @ [CHR 0x0A]) ps)
              \<and> (\<forall>p \<in> set ps. url p \<in> set us \<and> url_filter (url p)
                    \<and> (\<exists>secs. sections p = Some secs
                          \<and> get_path_hierarchy (netloc_ok E) (url p) = Inr secs))"
proof -
  let ?f = "\<lambda>u. crawl_page E (Crawler_init ''https://mamaearth.in/'' True spl) u ''product''"
  let ?ps = "[p. Some p \<leftarrow> fst (imap ?f us)]"
  have fc: "snd (download_and_save E spl f0)
                = concat (map (\<lambda>p. dumps (dict_of p) @ [CHR 0x0A]) ?ps)"
    by (simp add: download_and_save_resolved [OF assms] write_products_eq)
  have us: "\<forall>u \<in> set us. url_filter u"
    using assms(2) by (auto simp add: filtered_page_urls_def split: sum.splits)
  have "url p \<in> set us \<and> url_filter (url p)
          \<and> (\<exists>secs. sections p = Some secs \<and> get_path_hierarchy (netloc_ok E) (url p) = Inr secs)"
    if "p \<in> set ?ps" for p
  proof -
    from that have "Some p \<in> set (fst (imap ?f us))" by (auto split: option.splits)
    then obtain u where u: "u \<in> set us" "?f u = Inr (Some p)"
      using imap_result_origin by fastforce
    from crawl_page_Some_url [OF u(2)] u(1) us show ?thesis by auto
  qed
  with fc show ?thesis by blast
qed


text \<open>The theorem on the run over the example site.\<close>

theorem written_records_come_from_filtered_urls_witness:
  "\<exists>ps. snd (download_and_save (example_env example_sitemap) True '''')
           = concat (map (\<lambda>p. dumps (dict_of p) @ [CHR 0x0A]) ps)
         \<and> (\<forall>p \<in> set ps.
               url p \<in> set [''https://mamaearth.in/product/a'', ''https://mamaearth.in/product/b'']
               \<and> url_filter (url p)
               \<and> (\<exists>secs. sections p = Some secs
                     \<and> get_path_hierarchy (\<lambda>n. True) (url p) = Inr secs))"
proof -
  have n: "netloc_ok (example_env example_sitemap) = (\<lambda>n. True)"
    by (simp add: example_env_def)
  from written_records_come_from_filtered_urls
         [of "example_env example_sitemap" True "all_pages example_sitemap"
             "[''https://mamaearth.in/product/a'', ''https://mamaearth.in/product/b'']" "''''"]
       download_sitemap_example filtered_example
  show ?thesis by (simp only: n)
qed


section \<open>Records and selectors\<close>




section \<open>Errors of one URL\<close>




section \<open>HTTP status\<close>

text \<open>
  C5, as the claim states it, fails for a status that is not 2xx and not an error status:
  \<open>Response.ok\<close> is false only from 400 to 599. A response with status 300 and the product
  page as its body gives a record.
\<close>

theorem crawl_page_status_300_record:
  "requests_get (example_env example_sitemap) ''https://mamaearth.in/product/d''
     = Inr \<lparr>status_code = 300, content = example_html\<rparr>
   \<and> crawl_page (example_env example_sitemap) example_crawler
       ''https://mamaearth.in/product/d'' ''product''
     = Inr (Some \<lparr>title = ''Onion Oil'', description = ''Good oil'', subtitle = ''For hair'',
                   url = ''https://mamaearth.in/product/d'',
                   sections = Some [''product'', ''product/d'']\<rparr>)"
proof
  show "requests_get (example_env example_sitemap) ''https://mamaearth.in/product/d''
     = Inr \<lparr>status_code = 300, content = example_html\<rparr>"
    by (simp add: example_env_def example_web_def)
  show "crawl_page (example_env example_sitemap) example_crawler
       ''https://mamaearth.in/product/d'' ''product''
     = Inr (Some \<lparr>title = ''Onion Oil'', description = ''Good oil'', subtitle = ''For hair'',
                   url = ''https://mamaearth.in/product/d'',
                   sections = Some [''product'', ''product/d'']\<rparr>)"
    by code_simp
qed

text \<open>
  C5, amended. For a URL that parses and whose fetch returns a response: when the status
  is from 400 to 599, \<open>crawl_page\<close> returns \<open>None\<close>, and wherever the URL stands in the list
  handed to the pool, the iteration ends as it would without this URL and the file is
  written as it would be without it, so the run of \<open>download_and_save\<close> is the run over
  the other URLs; when the status is any other number, the outcome does not depend on the
  status: the body is parsed and the selectors are applied.
\<close>

theorem http_error_status_writes_nothing:
  assumes "get_path_hierarchy (netloc_ok E) u = Inr secs"
    and "requests_get E u = Inr resp"
  shows "(400 \<le> status_code resp \<and> status_code resp < 600 \<longrightarrow>
            crawl_page E self u sel = Inr None
            \<and> snd (imap (\<lambda>x. crawl_page E self x sel) (before @ u # after))
                = snd (imap (\<lambda>x. crawl_page E self x sel) (before @ after))
            \<and> write_products (fst (imap (\<lambda>x. crawl_page E self x sel) (before @ u # after))) out
                = write_products (fst (imap (\<lambda>x. crawl_page E self x sel) (before @ after))) out)
         \<and> (400 \<le> status_code resp \<and> status_code resp < 600
             \<and> download_sitemap E (Crawler_init ''https://mamaearth.in/'' True spl)
                  (Some ''https://mamaearth.in/sitemap.xml'') = Inr pgs
             \<and> filtered_page_urls (netloc_ok E) ''https://mamaearth.in/'' pgs
                  = Inr (before @ u # after)
            \<longrightarrow>
              download_and_save E spl file_before
                = (case imap (\<lambda>x. crawl_page E (Crawler_init ''https://mamaearth.in/'' True spl)
                                      x ''product'') (before @ after) of
                     (products, err) \<Rightarrow>
                       ((case err of None \<Rightarrow> Inr () | Some e \<Rightarrow> Inl e),
                        write_products products '''')))
         \<and> (\<not> (400 \<le> status_code resp \<and> status_code resp < 600) \<longrightarrow>
              crawl_page E self u sel
                = (case html_parser E (content resp) of
                     Inl e \<Rightarrow> Inl e
                   | Inr nodes \<Rightarrow>
                       (case try_block (Tag ''[document]'' [] nodes) u secs of
                          Inr product \<Rightarrow> Inr (Some product)
                        | Inl e \<Rightarrow> Inr None)))"
proof (intro conjI impI)
  assume s: "400 \<le> status_code resp \<and> status_code resp < 600"
  then have "\<not> ok resp" by (simp add: ok_def)
  then have c: "crawl_page E self' u sel' = Inr None" for self' sel'
    using assms by (simp add: crawl_page_after_fetch)
  show "crawl_page E self u sel = Inr None" by (rule c)
  show "snd (imap (\<lambda>x. crawl_page E self x sel) (before @ u # after))
                = snd (imap (\<lambda>x. crawl_page E self x sel) (before @ after))"
    using imap_drop_None [of "\<lambda>x. crawl_page E self x sel" u before after, OF c] by simp
  show "write_products (fst (imap (\<lambda>x. crawl_page E self x sel) (before @ u # after))) out
                = write_products (fst (imap (\<lambda>x. crawl_page E self x sel) (before @ after))) out"
    using imap_drop_None [of "\<lambda>x. crawl_page E self x sel" u before after, OF c] by simp
next
  assume a: "400 \<le> status_code resp \<and> status_code resp < 600
             \<and> download_sitemap E (Crawler_init ''https://mamaearth.in/'' True spl)
                  (Some ''https://mamaearth.in/sitemap.xml'') = Inr pgs
             \<and> filtered_page_urls (netloc_ok E) ''https://mamaearth.in/'' pgs
                  = Inr (before @ u # after)"
  let ?f = "\<lambda>x. crawl_page E (Crawler_init ''https://mamaearth.in/'' True spl) x ''product''"
  from a have "\<not> ok resp" by (simp add: ok_def)
  then have c: "?f u = Inr None"
    using assms by (simp add: crawl_page_after_fetch)
  from a have d: "download_sitemap E (Crawler_init ''https://mamaearth.in/'' True spl)
                  (Some ''https://mamaearth.in/sitemap.xml'') = Inr pgs"
    and f: "filtered_page_urls (netloc_ok E) ''https://mamaearth.in/'' pgs
                  = Inr (before @ u # after)" by simp_all
  show "download_and_save E spl file_before
                = (case imap ?f (before @ after) of
                     (products, err) \<Rightarrow>
                       ((case err of None \<Rightarrow> Inr () | Some e \<Rightarrow> Inl e),
                        write_products products ''''))"
    unfolding download_and_save_resolved [OF d f]
    using imap_drop_None [of ?f u before after "''''", OF c]
    by (simp split: prod.splits)
next
  assume "\<not> (400 \<le> status_code resp \<and> status_code resp < 600)"
  then have "ok resp" by (simp add: ok_def)
  then show "crawl_page E self u sel
                = (case html_parser E (content resp) of
                     Inl e \<Rightarrow> Inl e
                   | Inr nodes \<Rightarrow>
                       (case try_block (Tag ''[document]'' [] nodes) u secs of
                          Inr product \<Rightarrow> Inr (Some product)
                        | Inl e \<Rightarrow> Inr None))"
    using assms by (simp add: crawl_page_after_fetch)
qed

text \<open>
  The theorem on the page that answers 404, on the run over the example site, and on the
  page that answers 600.
\<close>

theorem http_error_status_writes_nothing_witness:
  \<open>crawl_page (example_env example_sitemap) example_crawler
     ''https://mamaearth.in/product/b'' ''product'' = Inr None
   \<and> download_and_save (example_env example_sitemap) True ''''
     = (case imap (\<lambda>x. crawl_page (example_env example_sitemap)
                          (Crawler_init ''https://mamaearth.in/'' True True) x ''product'')
                [''https://mamaearth.in/product/a''] of
          (products, err) \<Rightarrow>
            ((case err of None \<Rightarrow> Inr () | Some e \<Rightarrow> Inl e), write_products products ''''))
   \<and> crawl_page (example_env example_sitemap) example_crawler
       ''https://mamaearth.in/product/g'' ''product''
     = (case html_parser (example_env example_sitemap) example_html of
          Inl e \<Rightarrow> Inl e
        | Inr nodes \<Rightarrow>
            (case try_block (Tag ''[document]'' [] nodes) ''https://mamaearth.in/product/g''
                    [''product'', ''product/g''] of
               Inr product \<Rightarrow> Inr (Some product)
             | Inl e \<Rightarrow> Inr None))\<close>
proof -
  have n: "netloc_ok (example_env example_sitemap) = (\<lambda>n. True)"
    by (simp add: example_env_def)
  have g: "get_path_hierarchy (netloc_ok (example_env example_sitemap))
             ''https://mamaearth.in/product/b'' = Inr [''product'', ''product/b'']"
    by (simp add: example_env_def gph_b)
  have r: "requests_get (example_env example_sitemap) ''https://mamaearth.in/product/b''
             = Inr \<lparr>status_code = 404, content = ''''\<rparr>"
    by (simp add: example_env_def example_web_def)
  have f: "filtered_page_urls (netloc_ok (example_env example_sitemap)) ''https://mamaearth.in/''
             (all_pages example_sitemap)
           = Inr ([''https://mamaearth.in/product/a''] @ ''https://mamaearth.in/product/b'' # [])"
    by (simp add: n filtered_example)
  have gg: "get_path_hierarchy (netloc_ok (example_env example_sitemap))
             ''https://mamaearth.in/product/g'' = Inr [''product'', ''product/g'']"
    by (simp add: example_env_def gph_g)
  have rg: "requests_get (example_env example_sitemap) ''https://mamaearth.in/product/g''
             = Inr \<lparr>status_code = 600, content = example_html\<rparr>"
    by (simp add: example_env_def example_web_def)
  from http_error_status_writes_nothing
         [OF g r, where self = example_crawler and sel = "''product''"
            and before = "[''https://mamaearth.in/product/a'']" and after = "[]"
            and out = "''''" and spl = True and pgs = "all_pages example_sitemap"
            and file_before = "''''"]
       download_sitemap_example f
  have 1: "crawl_page (example_env example_sitemap) example_crawler
     ''https://mamaearth.in/product/b'' ''product'' = Inr None"
    and 2: "download_and_save (example_env example_sitemap) True ''''
     = (case imap (\<lambda>x. crawl_page (example_env example_sitemap)
                          (Crawler_init ''https://mamaearth.in/'' True True) x ''product'')
                [''https://mamaearth.in/product/a''] of
          (products, err) \<Rightarrow>
            ((case err of None \<Rightarrow> Inr () | Some e \<Rightarrow> Inl e), write_products products ''''))"
    by simp_all
  from http_error_status_writes_nothing
         [OF gg rg, where self = example_crawler and sel = "''product''"]
  have 3: "crawl_page (example_env example_sitemap) example_crawler
       ''https://mamaearth.in/product/g'' ''product''
     = (case html_parser (example_env example_sitemap) example_html of
          Inl e \<Rightarrow> Inl e
        | Inr nodes \<Rightarrow>
            (case try_block (Tag ''[document]'' [] nodes) ''https://mamaearth.in/product/g''
                    [''product'', ''product/g''] of
               Inr product \<Rightarrow> Inr (Some product)
             | Inl e \<Rightarrow> Inr None))"
    by simp
  from 1 2 3 show ?thesis by blast
qed

section \<open>The lines of the file\<close>

text \<open>
  C3. Once the sitemap is resolved and the page URLs are joined and filtered, the file
  that \<open>download_and_save\<close> leaves is, for every record that \<open>crawl_page\<close> returned and for
  nothing else, the text of \<open>json.dumps(product.__dict__)\<close> followed by one newline, in
  the order of the URLs. That text holds no newline, so each record is one line; it reads
  back as one JSON object, not enclosed in an array, with the keys \<open>title\<close>,
  \<open>description\<close>, \<open>subtitle\<close>, \<open>url\<close>, \<open>sections\<close> in this order, the first four with
  string values and \<open>sections\<close> with the list of section strings, which every record
  written has.
\<close>

theorem sink_writes_one_json_object_per_line:
  assumes "download_sitemap E (Crawler_init ''https://mamaearth.in/'' True spl)
             (Some ''https://mamaearth.in/sitemap.xml'') = Inr pgs"
    and "filtered_page_urls (netloc_ok E) ''https://mamaearth.in/'' pgs = Inr page_urls"
  shows \<open>snd (download_and_save E spl file_before)
           = concat (map (\<lambda>p. dumps (dict_of p) @ [CHR 0x0A])
               [p. Some p \<leftarrow> fst (imap (\<lambda>u. crawl_page E
                                              (Crawler_init ''https://mamaearth.in/'' True spl)
                                              u ''product'') page_urls)])
         \<and> (\<forall>p \<in> set [p. Some p \<leftarrow> fst (imap (\<lambda>u. crawl_page E
                                              (Crawler_init ''https://mamaearth.in/'' True spl)
                                              u ''product'') page_urls)].
               \<exists>secs. sections p = Some secs)
         \<and> write_products results out
            = out @ concat (map (\<lambda>p. dumps (dict_of p) @ [CHR 0x0A]) [p. Some p \<leftarrow> results])
         \<and> write_products [Some product] out = out @ dumps (dict_of product) @ [CHR 0x0A]
         \<and> CHR 0x0A \<notin> set (dumps (dict_of product))
         \<and> dumps (dict_of product) =
             ''{"title": '' @ encode_basestring_ascii (title product)
             @ '', "description": '' @ encode_basestring_ascii (description product)
             @ '', "subtitle": '' @ encode_basestring_ascii (subtitle product)
             @ '', "url": '' @ encode_basestring_ascii (url product)
             @ '', "sections": ''
             @ (case sections product of
                  None \<Rightarrow> ''null''
                | Some secs \<Rightarrow> ''['' @ join '', '' (map encode_basestring_ascii secs) @ '']'')
             @ ''}''
         \<and> loads (dumps (dict_of product))
            = Some (PyDict [(''title'', PyStr (title product)),
                            (''description'', PyStr (description product)),
                            (''subtitle'', PyStr (subtitle product)),
                            (''url'', PyStr (url product)),
                            (''sections'', (case sections product of
                                              None \<Rightarrow> PyNone
                                            | Some secs \<Rightarrow> PyList (map PyStr secs)))])
         \<and> loads_record (dumps (dict_of product)) = Some product\<close>
proof (intro conjI)
  let ?f = "\<lambda>u. crawl_page E (Crawler_init ''https://mamaearth.in/'' True spl) u ''product''"
  show "snd (download_and_save E spl file_before)
           = concat (map (\<lambda>p. dumps (dict_of p) @ [CHR 0x0A]) [p. Some p \<leftarrow> fst (imap ?f page_urls)])"
    by (simp add: download_and_save_resolved [OF assms] write_products_eq)
  show "\<forall>p \<in> set [p. Some p \<leftarrow> fst (imap ?f page_urls)]. \<exists>secs. sections p = Some secs"
  proof
    fix p assume "p \<in> set [p. Some p \<leftarrow> fst (imap ?f page_urls)]"
    then have "Some p \<in> set (fst (imap ?f page_urls))" by (auto split: option.splits)
    then obtain u where "?f u = Inr (Some p)"
      using imap_result_origin by fastforce
    from crawl_page_Some_url [OF this] show "\<exists>secs. sections p = Some secs" by blast
  qed
  show "write_products results out
     = out @ concat (map (\<lambda>p. dumps (dict_of p) @ [CHR 0x0A]) [p. Some p \<leftarrow> results])"
    by (rule write_products_eq)
  show "write_products [Some product] out = out @ dumps (dict_of product) @ [CHR 0x0A]"
    by simp
  show "CHR 0x0A \<notin> set (dumps (dict_of product))"
    by (rule newline_not_printable) (rule printable_dumps_dict_of)
  show \<open>dumps (dict_of product) =
       ''{"title": '' @ encode_basestring_ascii (title product)
       @ '', "description": '' @ encode_basestring_ascii (description product)
       @ '', "subtitle": '' @ encode_basestring_ascii (subtitle product)
       @ '', "url": '' @ encode_basestring_ascii (url product)
       @ '', "sections": ''
       @ (case sections product of
            None \<Rightarrow> ''null''
          | Some secs \<Rightarrow> ''['' @ join '', '' (map encode_basestring_ascii secs) @ '']'')
       @ ''}''\<close>
    by (rule dumps_dict_of)
  show "loads (dumps (dict_of product))
            = Some (PyDict [(''title'', PyStr (title product)),
                            (''description'', PyStr (description product)),
                            (''subtitle'', PyStr (subtitle product)),
                            (''url'', PyStr (url product)),
                            (''sections'', (case sections product of
                                              None \<Rightarrow> PyNone
                                            | Some secs \<Rightarrow> PyList (map PyStr secs)))])"
    unfolding loads_dumps_dict_of by (simp add: dict_of_def)
  show "loads_record (dumps (dict_of product)) = Some product"
    by (rule loads_record_dumps)
qed

text \<open>The theorem on the run over the example site, with a file that held an earlier line.\<close>

theorem sink_writes_one_json_object_per_line_witness:
  \<open>snd (download_and_save (example_env example_sitemap) True ''an earlier line'')
     = ''{"title": "Onion Oil", "description": "Good oil", "subtitle": "For hair", ''
       @ ''"url": "https://mamaearth.in/product/a", "sections": ["product", "product/a"]}''
       @ [CHR 0x0A]
   \<and> loads (''{"title": "Onion Oil", "description": "Good oil", "subtitle": "For hair", ''
            @ ''"url": "https://mamaearth.in/product/a", "sections": ["product", "product/a"]}'')
     = Some (PyDict [(''title'', PyStr ''Onion Oil''), (''description'', PyStr ''Good oil''),
                     (''subtitle'', PyStr ''For hair''),
                     (''url'', PyStr ''https://mamaearth.in/product/a''),
                     (''sections'', PyList [PyStr ''product'', PyStr ''product/a''])])\<close>
proof -
  let ?p = "\<lparr>title = ''Onion Oil'', description = ''Good oil'', subtitle = ''For hair'',
             url = ''https://mamaearth.in/product/a'',
             sections = Some [''product'', ''product/a'']\<rparr>"
  have n: "netloc_ok (example_env example_sitemap) = (\<lambda>n. True)"
    by (simp add: example_env_def)
  have f: "filtered_page_urls (netloc_ok (example_env example_sitemap)) ''https://mamaearth.in/''
             (all_pages example_sitemap)
           = Inr [''https://mamaearth.in/product/a'', ''https://mamaearth.in/product/b'']"
    by (simp add: n filtered_example)
  have i: "fst (imap (\<lambda>u. crawl_page (example_env example_sitemap)
                            (Crawler_init ''https://mamaearth.in/'' True True) u ''product'')
                  [''https://mamaearth.in/product/a'', ''https://mamaearth.in/product/b''])
           = [Some ?p, None]"
    by code_simp
  have e: \<open>dumps (dict_of ?p)
            = ''{"title": "Onion Oil", "description": "Good oil", "subtitle": "For hair", ''
              @ ''"url": "https://mamaearth.in/product/a", "sections": ["product", "product/a"]}''\<close>
    by code_simp
  note t = sink_writes_one_json_object_per_line
             [OF download_sitemap_example f, where file_before = "''an earlier line''"
                and product = ?p]
  from t have "snd (download_and_save (example_env example_sitemap) True ''an earlier line'')
                 = concat (map (\<lambda>p. dumps (dict_of p) @ [CHR 0x0A]) [p. Some p \<leftarrow> [Some ?p, None]])"
    unfolding i by blast
  then have 1: \<open>snd (download_and_save (example_env example_sitemap) True ''an earlier line'')
     = ''{"title": "Onion Oil", "description": "Good oil", "subtitle": "For hair", ''
       @ ''"url": "https://mamaearth.in/product/a", "sections": ["product", "product/a"]}''
       @ [CHR 0x0A]\<close>
    by (simp add: e)
  from t have "loads (dumps (dict_of ?p))
            = Some (PyDict [(''title'', PyStr (title ?p)),
                            (''description'', PyStr (description ?p)),
                            (''subtitle'', PyStr (subtitle ?p)),
                            (''url'', PyStr (url ?p)),
                            (''sections'', (case sections ?p of
                                              None \<Rightarrow> PyNone
                                            | Some secs \<Rightarrow> PyList (map PyStr secs)))])"
    by blast
  then have 2: \<open>loads (''{"title": "Onion Oil", "description": "Good oil", "subtitle": "For hair", ''
            @ ''"url": "https://mamaearth.in/product/a", "sections": ["product", "product/a"]}'')
     = Some (PyDict [(''title'', PyStr ''Onion Oil''), (''description'', PyStr ''Good oil''),
                     (''subtitle'', PyStr ''For hair''),
                     (''url'', PyStr ''https://mamaearth.in/product/a''),
                     (''sections'', PyList [PyStr ''product'', PyStr ''product/a''])])\<close>
    unfolding e by simp
  from 1 2 show ?thesis by blast
qed

section \<open>Two runs\<close>

text \<open>
  C8, as the claim states it, fails: the file is opened with mode \<open>'w'\<close>, so a run does not
  append. On the example site the first run writes one line; a second run on the file that
  the first one left gives that same file, not the line twice.
\<close>

theorem second_run_overwrites:
  "snd (download_and_save (example_env example_sitemap) True '''') \<noteq> ''''
   \<and> snd (download_and_save (example_env example_sitemap) True
           (snd (download_and_save (example_env example_sitemap) True '''')))
       = snd (download_and_save (example_env example_sitemap) True '''')
   \<and> snd (download_and_save (example_env example_sitemap) True
           (snd (download_and_save (example_env example_sitemap) True '''')))
       \<noteq> snd (download_and_save (example_env example_sitemap) True '''')
         @ snd (download_and_save (example_env example_sitemap) True '''')"
proof -
  have a: "snd (download_and_save (example_env example_sitemap) True '''') \<noteq> ''''"
    by (simp add: run_example)
  have b: "download_and_save (example_env example_sitemap) True f
             = download_and_save (example_env example_sitemap) True ''''" for f
    by (rule download_and_save_discards [OF download_sitemap_example])
  show ?thesis
    using a b [of "snd (download_and_save (example_env example_sitemap) True '''')"]
    by simp
qed

text \<open>
  C8, amended. Once the sitemap is resolved, a run replaces the content of the file: the
  result does not depend on what the file held, and a second run against the unchanged
  site leaves exactly what the first run left. The file is a sequence of lines, one per
  record; no line holds a newline inside, and each line parses back to the record it was
  written from, with its four string fields and its sections.
\<close>

theorem run_replaces_the_file:
  assumes "download_sitemap E (Crawler_init ''https://mamaearth.in/'' True spl)
             (Some ''https://mamaearth.in/sitemap.xml'') = Inr pgs"
  shows "download_and_save E spl file_before = download_and_save E spl ''''
         \<and> snd (download_and_save E spl (snd (download_and_save E spl file_before)))
             = snd (download_and_save E spl file_before)
         \<and> (\<exists>ps. snd (download_and_save E spl file_before)
                    = concat (map (\<lambda>p. dumps (dict_of p) @ [CHR 0x0A]) ps)
                  \<and> (\<forall>p \<in> set ps. CHR 0x0A \<notin> set (dumps (dict_of p))
                        \<and> loads_record (dumps (dict_of p)) = Some p))"
proof (intro conjI)
  show "download_and_save E spl file_before = download_and_save E spl ''''"
    by (rule download_and_save_discards [OF assms])
  show "snd (download_and_save E spl (snd (download_and_save E spl file_before)))
             = snd (download_and_save E spl file_before)"
    using download_and_save_discards [OF assms] by metis
  from download_and_save_lines [OF assms, of file_before]
  obtain ps where "snd (download_and_save E spl file_before)
                    = concat (map (\<lambda>p. dumps (dict_of p) @ [CHR 0x0A]) ps)"
    by blast
  moreover have "CHR 0x0A \<notin> set (dumps (dict_of p)) \<and> loads_record (dumps (dict_of p)) = Some p"
    for p
    by (simp add: newline_not_printable printable_dumps_dict_of loads_record_dumps)
  ultimately show "\<exists>ps. snd (download_and_save E spl file_before)
                    = concat (map (\<lambda>p. dumps (dict_of p) @ [CHR 0x0A]) ps)
                  \<and> (\<forall>p \<in> set ps. CHR 0x0A \<notin> set (dumps (dict_of p))
                        \<and> loads_record (dumps (dict_of p)) = Some p)"
    by blast
qed

text \<open>The theorem on the example site, with a file that held an earlier line.\<close>

theorem run_replaces_the_file_witness:
  \<open>download_and_save (example_env example_sitemap) True ''an earlier line''
     = (Inr (),
        ''{"title": "Onion Oil", "description": "Good oil", "subtitle": "For hair", ''
        @ ''"url": "https://mamaearth.in/product/a", "sections": ["product", "product/a"]}''
        @ [CHR 0x0A])
   \<and> loads_record
        (''{"title": "Onion Oil", "description": "Good oil", "subtitle": "For hair", ''
         @ ''"url": "https://mamaearth.in/product/a", "sections": ["product", "product/a"]}'')
       = Some \<lparr>title = ''Onion Oil'', description = ''Good oil'', subtitle = ''For hair'',
                url = ''https://mamaearth.in/product/a'',
                sections = Some [''product'', ''product/a'']\<rparr>\<close>
proof
  from run_replaces_the_file [OF download_sitemap_example, of "''an earlier line''"]
  show \<open>download_and_save (example_env example_sitemap) True ''an earlier line''
     = (Inr (),
        ''{"title": "Onion Oil", "description": "Good oil", "subtitle": "For hair", ''
        @ ''"url": "https://mamaearth.in/product/a", "sections": ["product", "product/a"]}''
        @ [CHR 0x0A])\<close>
    by (simp only: run_example)
  show \<open>loads_record
        (''{"title": "Onion Oil", "description": "Good oil", "subtitle": "For hair", ''
         @ ''"url": "https://mamaearth.in/product/a", "sections": ["product", "product/a"]}'')
       = Some \<lparr>title = ''Onion Oil'', description = ''Good oil'', subtitle = ''For hair'',
                url = ''https://mamaearth.in/product/a'',
                sections = Some [''product'', ''product/a'']\<rparr>\<close>
    by code_simp
qed


end
